theory Spec2Isabelle
  imports Main "HOL-Library.Code_Target_Nat"
begin

section \<open>Python values as they reach the panel client\<close>

text \<open>
  The client in \<^verbatim>\<open>ui_api.py\<close> works on what \<^verbatim>\<open>resp.json()\<close> and \<^verbatim>\<open>json.loads\<close>
  hand back: \<^verbatim>\<open>None\<close>, booleans, integers, strings, lists and dicts with string keys.
  A dict is an association list in insertion order; a well-formed dict has distinct keys.
  Non-integral numbers do not occur in the fields the client reads and are not part of the
  model. A \<^typ>\<open>char\<close> is a code point below 256.
\<close>

datatype json =
    JNull
  | JBool bool
  | JInt int
  | JStr string
  | JList "json list"
  | JObj "(string \<times> json) list"

text \<open>Python truthiness, \<^verbatim>\<open>x or y\<close>, \<^verbatim>\<open>isinstance\<close>.\<close>

fun truthy :: "json \<Rightarrow> bool" where
  "truthy JNull = False"
| "truthy (JBool b) = b"
| "truthy (JInt n) = (n \<noteq> 0)"
| "truthy (JStr s) = (s \<noteq> [])"
| "truthy (JList xs) = (xs \<noteq> [])"
| "truthy (JObj kvs) = (kvs \<noteq> [])"

definition py_or :: "json \<Rightarrow> json \<Rightarrow> json" where
  "py_or x y = (if truthy x then x else y)"

fun is_dict :: "json \<Rightarrow> bool" where
  "is_dict (JObj kvs) = True"
| "is_dict _ = False"

fun is_list :: "json \<Rightarrow> bool" where
  "is_list (JList xs) = True"
| "is_list _ = False"

fun is_str :: "json \<Rightarrow> bool" where
  "is_str (JStr s) = True"
| "is_str _ = False"

text \<open>\<^verbatim>\<open>d.get(k)\<close> and \<^verbatim>\<open>d.get(k, default)\<close> on the entries of a dict.\<close>

definition dict_get :: "(string \<times> json) list \<Rightarrow> string \<Rightarrow> json" where
  "dict_get kvs k = (case map_of kvs k of None \<Rightarrow> JNull | Some v \<Rightarrow> v)"

definition dict_get_default :: "(string \<times> json) list \<Rightarrow> string \<Rightarrow> json \<Rightarrow> json" where
  "dict_get_default kvs k d = (case map_of kvs k of None \<Rightarrow> d | Some v \<Rightarrow> v)"

text \<open>\<^verbatim>\<open>d[k] = v\<close>: an existing key keeps its position, a new key goes last.\<close>

fun dict_set :: "(string \<times> json) list \<Rightarrow> string \<Rightarrow> json \<Rightarrow> (string \<times> json) list" where
  "dict_set [] k v = [(k, v)]"
| "dict_set ((k', v') # kvs) k v =
     (if k' = k then (k, v) # kvs else (k', v') # dict_set kvs k v)"

subsection \<open>Strings\<close>

text \<open>\<^verbatim>\<open>str.strip()\<close> and \<^verbatim>\<open>str.lower()\<close> on code points below 256.\<close>

definition is_space :: "char \<Rightarrow> bool" where
  "is_space c = ((of_char c :: nat) \<in> {9, 10, 11, 12, 13, 28, 29, 30, 31, 32, 133, 160})"

definition strip :: "string \<Rightarrow> string" where
  "strip s = rev (dropWhile is_space (rev (dropWhile is_space s)))"

definition lower_char :: "char \<Rightarrow> char" where
  "lower_char c =
     (let n = (of_char c :: nat)
      in if (65 \<le> n \<and> n \<le> 90) \<or> (192 \<le> n \<and> n \<le> 214) \<or> (216 \<le> n \<and> n \<le> 222)
         then char_of (n + 32) else c)"

definition lower :: "string \<Rightarrow> string" where
  "lower s = map lower_char s"

fun startswith :: "string \<Rightarrow> string \<Rightarrow> bool" where
  "startswith s [] = True"
| "startswith [] (p # ps) = False"
| "startswith (c # cs) (p # ps) = (c = p \<and> startswith cs ps)"

definition endswith :: "string \<Rightarrow> string \<Rightarrow> bool" where
  "endswith s p = startswith (rev s) (rev p)"

fun contains :: "string \<Rightarrow> string \<Rightarrow> bool" where
  "contains [] p = (p = [])"
| "contains (c # cs) p = (startswith (c # cs) p \<or> contains cs p)"

text \<open>\<^verbatim>\<open>sep.join(parts)\<close>.\<close>

fun join :: "string \<Rightarrow> string list \<Rightarrow> string" where
  "join sep [] = []"
| "join sep [x] = x"
| "join sep (x # y # ys) = x @ sep @ join sep (y # ys)"

text \<open>Decimal text of an integer, as \<^verbatim>\<open>str(n)\<close> prints it.\<close>

definition digit_char :: "nat \<Rightarrow> char" where
  "digit_char d = char_of (48 + d)"

fun str_of_nat :: "nat \<Rightarrow> string" where
  "str_of_nat n = (if n < 10 then [digit_char n] else str_of_nat (n div 10) @ [digit_char (n mod 10)])"

declare str_of_nat.simps [simp del]

definition str_of_int :: "int \<Rightarrow> string" where
  "str_of_int i = (if i < 0 then CHR ''-'' # str_of_nat (nat (- i)) else str_of_nat (nat i))"

text \<open>
  \<^verbatim>\<open>str(v)\<close>, which is also what an f-string field \<^verbatim>\<open>{v}\<close> prints. The text of a list
  or a dict is Python's \<^verbatim>\<open>repr\<close>, a built-in taken as the parameter \<open>rp\<close>.
\<close>

fun py_str :: "(json \<Rightarrow> string) \<Rightarrow> json \<Rightarrow> string" where
  "py_str rp JNull = ''None''"
| "py_str rp (JBool b) = (if b then ''True'' else ''False'')"
| "py_str rp (JInt n) = str_of_int n"
| "py_str rp (JStr s) = s"
| "py_str rp v = rp v"

subsection \<open>Exceptions\<close>

text \<open>
  Every \<^verbatim>\<open>raise\<close> of the source and every built-in failure it can run into is a value.
  The \<^verbatim>\<open>RuntimeError\<close>s of \<^verbatim>\<open>ui_api.py\<close> carry what their message is formatted from.
\<close>

datatype runtime_error =
    InboundNotFound int
  | InboundNotListed int "json list"
  | AddClientFailed json
  | UnlimitedPlan
  | ClientNotFound string
  | UpdateFailed json
  | UpdateClientFailed json

datatype exn =
    AttributeError
  | TypeError
  | ValueError
  | KeyError string
  | JSONDecodeError
  | TransportError string
  | RuntimeError runtime_error
  | LookupError string int

section \<open>The response normalizer\<close>

text \<open>
  \<^verbatim>\<open>UIAPI._safe_json_load\<close> (ui_api.py 95-106). \<open>loads\<close> is \<^verbatim>\<open>json.loads\<close>, with
  \<open>None\<close> for any exception it raises. The loop runs at most three times and leaves at
  the first value that is not a string or does not parse.
\<close>

fun unwrap_json :: "(string \<Rightarrow> json option) \<Rightarrow> nat \<Rightarrow> json \<Rightarrow> json" where
  "unwrap_json loads 0 parsed = parsed"
| "unwrap_json loads (Suc n) parsed =
     (case parsed of
        JStr s \<Rightarrow> (case loads s of None \<Rightarrow> parsed | Some v \<Rightarrow> unwrap_json loads n v)
      | _ \<Rightarrow> parsed)"

definition safe_json_load :: "(string \<Rightarrow> json option) \<Rightarrow> json \<Rightarrow> json" where
  "safe_json_load loads obj =
     (let parsed = unwrap_json loads 3 obj
      in if is_dict parsed then parsed else JObj [])"

text \<open>
  The levels of a payload as the specification counts them: the payload itself, then
  what each successive parse of a string gives, up to \<open>n\<close> parses.
\<close>

fun parse_levels :: "(string \<Rightarrow> json option) \<Rightarrow> nat \<Rightarrow> json \<Rightarrow> json list" where
  "parse_levels loads 0 x = [x]"
| "parse_levels loads (Suc n) x =
     x # (case x of
            JStr s \<Rightarrow> (case loads s of None \<Rightarrow> [] | Some v \<Rightarrow> parse_levels loads n v)
          | _ \<Rightarrow> [])"

section \<open>The panel and the Python runtime\<close>

text \<open>
  What lies outside the repository is a parameter of the model. The world is the clock
  returned by \<^verbatim>\<open>time.time()\<close>, in milliseconds, and the HTTP requests issued so far, in
  the order they were sent. The panel answers a request from the world it is sent in, so
  its answers may depend on the time and on every earlier request.
\<close>

datatype http_method = GET | POST

record request =
  req_method :: http_method
  req_url :: string
  req_json :: json

text \<open>
  What \<^verbatim>\<open>session.request\<close> gives: an exception of the transport with its message, or a
  response with the message \<^verbatim>\<open>raise_for_status()\<close> raises (if it does), the value of
  \<^verbatim>\<open>resp.json()\<close> (if the body is JSON) and \<^verbatim>\<open>resp.text\<close>.
\<close>

datatype http_result =
    ConnError string
  | HttpResponse "string option" "json option" string

record world =
  clock_ms :: nat
  sent :: "request list"

record pyrt =
  json_loads :: "string \<Rightarrow> json option"
  json_dumps :: "json \<Rightarrow> string"
  urlparse_hostname :: "string \<Rightarrow> string option"
  py_repr :: "json \<Rightarrow> string"
  dict_of_list :: "json list \<Rightarrow> exn + (string \<times> json) list"
  int_of_str :: "string \<Rightarrow> int option"
  uuid4 :: "world \<Rightarrow> string"
  panel :: "world \<Rightarrow> request \<Rightarrow> http_result \<times> nat"

text \<open>
  \<open>json_loads\<close> is \<^verbatim>\<open>json.loads\<close> (\<open>None\<close> when it raises), \<open>json_dumps\<close> is
  \<^verbatim>\<open>json.dumps\<close> with the compact separators the client passes, \<open>urlparse_hostname\<close> is
  \<^verbatim>\<open>urlparse(u).hostname\<close> (\<open>None\<close> when it is \<^verbatim>\<open>None\<close> or \<^verbatim>\<open>urlparse\<close> raises),
  \<open>py_repr\<close> is \<^verbatim>\<open>repr\<close> on lists and dicts, \<open>dict_of_list\<close> is \<^verbatim>\<open>dict(xs)\<close> on a
  list, \<open>int_of_str\<close> is \<^verbatim>\<open>int(s)\<close> on a string (\<open>None\<close> for \<^verbatim>\<open>ValueError\<close>),
  \<open>uuid4\<close> is \<^verbatim>\<open>str(uuid.uuid4())\<close>, and \<open>panel\<close> is the panel behind the session: its
  answer to a request and the milliseconds the exchange takes.
\<close>

record uiapi =
  secret_base :: string
  panel_base :: string

text \<open>Attribute access \<^verbatim>\<open>v.get(k)\<close> and iteration \<^verbatim>\<open>for x in v\<close> on any value.\<close>

fun py_get :: "json \<Rightarrow> string \<Rightarrow> exn + json" where
  "py_get (JObj kvs) k = Inr (dict_get kvs k)"
| "py_get _ k = Inl AttributeError"

fun py_iter :: "json \<Rightarrow> exn + json list" where
  "py_iter (JList xs) = Inr xs"
| "py_iter (JObj kvs) = Inr (map (\<lambda>kv. JStr (fst kv)) kvs)"
| "py_iter (JStr s) = Inr (map (\<lambda>c. JStr [c]) s)"
| "py_iter _ = Inl TypeError"

text \<open>The entries of a value that is a dict (the normalizer returns nothing else).\<close>

fun entries :: "json \<Rightarrow> (string \<times> json) list" where
  "entries (JObj kvs) = kvs"
| "entries _ = []"

text \<open>\<^verbatim>\<open>int(v)\<close> and \<^verbatim>\<open>dict(v)\<close>.\<close>

fun py_int :: "(string \<Rightarrow> int option) \<Rightarrow> json \<Rightarrow> exn + int" where
  "py_int ios (JInt n) = Inr n"
| "py_int ios (JBool b) = Inr (if b then 1 else 0)"
| "py_int ios (JStr s) = (case ios s of None \<Rightarrow> Inl ValueError | Some n \<Rightarrow> Inr n)"
| "py_int ios _ = Inl TypeError"

fun py_dict :: "(json list \<Rightarrow> exn + (string \<times> json) list) \<Rightarrow> json \<Rightarrow> exn + (string \<times> json) list" where
  "py_dict dol (JObj kvs) = Inr kvs"
| "py_dict dol (JList xs) = dol xs"
| "py_dict dol (JStr s) = (if s = [] then Inr [] else Inl ValueError)"
| "py_dict dol _ = Inl TypeError"

subsection \<open>Internal utilities (ui_api.py 58-93)\<close>

definition build_url :: "uiapi \<Rightarrow> string \<Rightarrow> string" where
  "build_url u path =
     (if startswith path ''http://'' \<or> startswith path ''https://'' then path
      else secret_base u @ (if \<not> startswith path ''/'' then ''/'' @ path else path))"

text \<open>
  \<^verbatim>\<open>_request\<close>: a transport exception and \<^verbatim>\<open>raise_for_status()\<close> propagate (\<open>Inl\<close> with
  the message); a body that is not JSON becomes \<^verbatim>\<open>{"raw": resp.text, "ok": resp.ok}\<close>.
\<close>

definition request :: "pyrt \<Rightarrow> uiapi \<Rightarrow> http_method \<Rightarrow> string \<Rightarrow> json \<Rightarrow> world \<Rightarrow> (string + json) \<times> world" where
  "request E u m path payload w =
     (let rq = \<lparr>req_method = m, req_url = build_url u path, req_json = payload\<rparr>;
          w' = w\<lparr>clock_ms := clock_ms w + snd (panel E w rq), sent := sent w @ [rq]\<rparr>
      in case fst (panel E w rq) of
           ConnError msg \<Rightarrow> (Inl msg, w')
         | HttpResponse err body txt \<Rightarrow>
             (case err of
                Some msg \<Rightarrow> (Inl msg, w')
              | None \<Rightarrow>
                  (case body of
                     Some j \<Rightarrow> (Inr j, w')
                   | None \<Rightarrow> (Inr (JObj [(''raw'', JStr txt), (''ok'', JBool True)]), w'))))"

definition post :: "pyrt \<Rightarrow> uiapi \<Rightarrow> string \<Rightarrow> json \<Rightarrow> world \<Rightarrow> (string + json) \<times> world" where
  "post E u path payload w = request E u POST path payload w"

definition resolve_server_host :: "pyrt \<Rightarrow> uiapi \<Rightarrow> string" where
  "resolve_server_host E u =
     (case urlparse_hostname E (panel_base u) of
        None \<Rightarrow> ''localhost''
      | Some h \<Rightarrow> (if h = [] then ''localhost'' else h))"

text \<open>\<^verbatim>\<open>time.sleep(0.4)\<close>.\<close>

definition sleep :: "nat \<Rightarrow> world \<Rightarrow> world" where
  "sleep ms w = w\<lparr>clock_ms := clock_ms w + ms\<rparr>"

section \<open>Panel API methods\<close>

subsection \<open>\<^verbatim>\<open>get_inbounds_list\<close> (ui_api.py 112-121)\<close>

definition get_inbounds_list :: "pyrt \<Rightarrow> uiapi \<Rightarrow> world \<Rightarrow> (exn + json) \<times> world" where
  "get_inbounds_list E u w =
     (case post E u ''panel/inbound/list'' (JObj []) w of
        (Inl msg, w') \<Rightarrow> (Inl (TransportError msg), w')
      | (Inr res, w') \<Rightarrow>
          (if is_dict res \<and> py_get res ''success'' = Inr (JBool True)
           then (let obj = py_or (dict_get (entries res) ''obj'') (JList [])
                 in (Inr (if is_list obj then obj else JList []), w'))
           else (case py_get res ''obj'' of
                   Inl e \<Rightarrow> (Inl e, w')
                 | Inr v \<Rightarrow> (Inr (py_or v (JList [])), w'))))"

subsection \<open>\<^verbatim>\<open>get_inbound\<close> (ui_api.py 123-146)\<close>

text \<open>The fast path: the first listed inbound whose \<^verbatim>\<open>str(ib.get("id"))\<close> is \<^verbatim>\<open>str(inbound_id)\<close>.\<close>

fun find_inbound :: "(json \<Rightarrow> string) \<Rightarrow> int \<Rightarrow> json list \<Rightarrow> exn + json option" where
  "find_inbound rp inbound_id [] = Inr None"
| "find_inbound rp inbound_id (ib # ibs) =
     (case py_get ib ''id'' of
        Inl e \<Rightarrow> Inl e
      | Inr v \<Rightarrow> (if py_str rp v = str_of_int inbound_id then Inr (Some ib)
                  else find_inbound rp inbound_id ibs))"

definition inbound_of_response :: "json \<Rightarrow> json option" where
  "inbound_of_response res =
     (case res of
        JObj kvs \<Rightarrow>
          (let inbound = py_or (dict_get kvs ''obj'')
                           (py_or (dict_get kvs ''data'') (py_or (dict_get kvs ''inbound'') res))
           in if is_dict inbound \<and> truthy inbound then Some inbound else None)
      | _ \<Rightarrow> None)"

fun get_inbound_variants :: "pyrt \<Rightarrow> uiapi \<Rightarrow> (http_method \<times> string \<times> json) list \<Rightarrow> world \<Rightarrow> json \<times> world" where
  "get_inbound_variants E u [] w = (JObj [], w)"
| "get_inbound_variants E u ((m, path, payload) # vs) w =
     (case request E u m path payload w of
        (Inl msg, w') \<Rightarrow> get_inbound_variants E u vs w'
      | (Inr res, w') \<Rightarrow>
          (case inbound_of_response res of
             Some inbound \<Rightarrow> (inbound, w')
           | None \<Rightarrow> get_inbound_variants E u vs w'))"

definition get_inbound :: "pyrt \<Rightarrow> uiapi \<Rightarrow> int \<Rightarrow> world \<Rightarrow> (exn + json) \<times> world" where
  "get_inbound E u inbound_id w =
     (case get_inbounds_list E u w of
        (Inl e, w') \<Rightarrow> (Inl e, w')
      | (Inr lst, w') \<Rightarrow>
          (case py_iter lst of
             Inl e \<Rightarrow> (Inl e, w')
           | Inr ibs \<Rightarrow>
               (case find_inbound (py_repr E) inbound_id ibs of
                  Inl e \<Rightarrow> (Inl e, w')
                | Inr (Some ib) \<Rightarrow> (Inr ib, w')
                | Inr None \<Rightarrow>
                    (case get_inbound_variants E u
                            [(GET, ''panel/inbound/get/'' @ str_of_int inbound_id, JNull),
                             (GET, ''panel/inbound/get'', JObj [(''id'', JInt inbound_id)])] w' of
                       (inbound, w'') \<Rightarrow> (Inr inbound, w'')))))"

subsection \<open>\<^verbatim>\<open>get_clients_list\<close> (ui_api.py 148-157)\<close>

text \<open>Lines 152-157: the clients of a fetched inbound.\<close>

definition decode_clients :: "pyrt \<Rightarrow> json \<Rightarrow> exn + json" where
  "decode_clients E inbound =
     (case py_get inbound ''settings'' of
        Inl e \<Rightarrow> Inl e
      | Inr settings_raw \<Rightarrow>
          (let settings =
                 (case settings_raw of
                    JStr s \<Rightarrow> (case json_loads E s of None \<Rightarrow> JObj [] | Some v \<Rightarrow> v)
                  | _ \<Rightarrow> py_or settings_raw (JObj []))
           in case py_get settings ''clients'' of
                Inl e \<Rightarrow> Inl e
              | Inr cs \<Rightarrow> Inr (py_or cs (JList []))))"

definition get_clients_list :: "pyrt \<Rightarrow> uiapi \<Rightarrow> int \<Rightarrow> world \<Rightarrow> (exn + json) \<times> world" where
  "get_clients_list E u inbound_id w =
     (case get_inbound E u inbound_id w of
        (Inl e, w') \<Rightarrow> (Inl e, w')
      | (Inr inbound, w') \<Rightarrow>
          (if \<not> truthy inbound then (Inr (JList []), w')
           else (decode_clients E inbound, w')))"

section \<open>Assembling the panel's VLESS link (ui_api.py 163-233)\<close>

text \<open>
  Line 180: the first client whose \<^verbatim>\<open>(c.get("email") or "").strip().lower()\<close> is the
  target; \<^verbatim>\<open>None\<close> (here \<open>JNull\<close>) when the generator is exhausted. A client that is not
  a dict, or whose email is truthy and not a string, raises \<^verbatim>\<open>AttributeError\<close>.
\<close>

fun find_client :: "string \<Rightarrow> json list \<Rightarrow> exn + json" where
  "find_client target [] = Inr JNull"
| "find_client target (c # cs) =
     (case py_get c ''email'' of
        Inl e \<Rightarrow> Inl e
      | Inr v \<Rightarrow>
          (case py_or v (JStr []) of
             JStr s \<Rightarrow> (if lower (strip s) = target then Inr c else find_client target cs)
           | _ \<Rightarrow> Inl AttributeError))"

text \<open>Lines 200-211, one definition for each field the link is made of.\<close>

definition public_key_of :: "(string \<Rightarrow> json option) \<Rightarrow> (string \<times> json) list \<Rightarrow> json" where
  "public_key_of loads rs =
     (let settings_inner = entries (safe_json_load loads (py_or (dict_get rs ''settings'') (JObj [])))
      in py_or (dict_get rs ''publicKey'') (py_or (dict_get settings_inner ''publicKey'') (JStr [])))"

definition short_id_of :: "(string \<times> json) list \<Rightarrow> json" where
  "short_id_of rs =
     (let sid_val = py_or (dict_get rs ''shortIds'') (JList [])
      in case sid_val of JList (x # xs) \<Rightarrow> x | _ \<Rightarrow> JStr [])"

definition sni_of :: "(string \<times> json) list \<Rightarrow> string \<Rightarrow> json" where
  "sni_of rs host =
     (let sni_list = py_or (dict_get rs ''serverNames'') (JList [JStr host])
      in case sni_list of JList (x # xs) \<Rightarrow> x | _ \<Rightarrow> JStr host)"

definition fp_of :: "(string \<times> json) list \<Rightarrow> (string \<times> json) list \<Rightarrow> json" where
  "fp_of tls rs =
     py_or (dict_get tls ''fingerprint'') (py_or (dict_get rs ''fingerprint'') (JStr ''chrome''))"

definition flow_of :: "(string \<times> json) list \<Rightarrow> exn + string" where
  "flow_of client =
     (case py_or (dict_get client ''flow'') (JStr ''xtls-rprx-vision'') of
        JStr s \<Rightarrow> Inr (strip s)
      | _ \<Rightarrow> Inl AttributeError)"

text \<open>
  Lines 186-225, for the inbound and the client found in it: \<open>Inr None\<close> is the
  \<^verbatim>\<open>return None\<close> of line 195.
\<close>

definition vless_link :: "pyrt \<Rightarrow> uiapi \<Rightarrow> string \<Rightarrow> (string \<times> json) list \<Rightarrow> (string \<times> json) list \<Rightarrow> exn + string option" where
  "vless_link E u email inbound client =
     (let S = py_str (py_repr E);
          ss = entries (safe_json_load (json_loads E) (py_or (dict_get inbound ''streamSettings'') (JObj [])));
          rs = entries (safe_json_load (json_loads E) (py_or (dict_get ss ''realitySettings'') (JObj [])));
          tls = entries (safe_json_load (json_loads E) (py_or (dict_get ss ''tlsSettings'') (JObj [])));
          port = py_or (dict_get inbound ''port'') (JStr []);
          uuid_val = py_or (dict_get client ''id'') (dict_get client ''password'')
      in if \<not> truthy uuid_val then Inr None
         else
           (let host = resolve_server_host E u;
                public_key = public_key_of (json_loads E) rs;
                short_id = short_id_of rs;
                sni = sni_of rs host;
                fp = fp_of tls rs
            in case flow_of client of
                 Inl e \<Rightarrow> Inl e
               | Inr flow \<Rightarrow>
                   (let params =
                          [''type=tcp'',
                           ''security=reality'',
                           ''pbk='' @ S public_key,
                           ''fp='' @ S fp,
                           ''sni='' @ S sni,
                           ''sid='' @ S short_id,
                           ''spx=%2F'',
                           ''flow='' @ flow]
                    in case py_or (dict_get inbound ''remark'') (JStr []) of
                         JStr r \<Rightarrow>
                           (let remark = strip r;
                                tag = (if remark = [] then email else remark @ ''-'' @ email)
                            in Inr (Some (''vless://'' @ S uuid_val @ ''@'' @ host @ '':'' @ S port
                                          @ ''?'' @ join ''&'' params @ ''#'' @ tag)))
                       | _ \<Rightarrow> Inl AttributeError)))"

text \<open>
  One pass of the \<^verbatim>\<open>while\<close> body on a fetched inbound (lines 173-225): \<open>Retry\<close> is
  \<^verbatim>\<open>time.sleep(0.4); continue\<close>, \<open>Return r\<close> is \<^verbatim>\<open>return r\<close>.
\<close>

datatype poll_outcome = Retry | Return "string option"

definition resolve_in :: "pyrt \<Rightarrow> uiapi \<Rightarrow> string \<Rightarrow> json \<Rightarrow> exn + poll_outcome" where
  "resolve_in E u email inbound =
     (if \<not> truthy inbound then Inr Retry
      else
        (case py_get inbound ''settings'' of
           Inl e \<Rightarrow> Inl e
         | Inr sv \<Rightarrow>
             (let settings = entries (safe_json_load (json_loads E) (py_or sv (JObj [])));
                  clients = py_or (dict_get settings ''clients'')
                              (py_or (dict_get (entries inbound) ''clients'') (JList []))
              in case py_iter clients of
                   Inl e \<Rightarrow> Inl e
                 | Inr cs \<Rightarrow>
                     (case find_client (lower (strip email)) cs of
                        Inl e \<Rightarrow> Inl e
                      | Inr client \<Rightarrow>
                          (if \<not> truthy client then Inr Retry
                           else (case vless_link E u email (entries inbound) (entries client) of
                                   Inl e \<Rightarrow> Inl e
                                 | Inr r \<Rightarrow> Inr (Return r)))))))"

definition poll_step :: "pyrt \<Rightarrow> uiapi \<Rightarrow> int \<Rightarrow> string \<Rightarrow> world \<Rightarrow> (exn + poll_outcome) \<times> world" where
  "poll_step E u inbound_id email w =
     (case get_inbound E u inbound_id w of
        (Inl e, w') \<Rightarrow> (Inl e, w')
      | (Inr inbound, w') \<Rightarrow> (resolve_in E u email inbound, w'))"

text \<open>
  The loop \<^verbatim>\<open>while time.time() < deadline\<close>, the deadline in milliseconds. Every pass
  that does not return sleeps 0.4 s, so the clock reaches the deadline.
\<close>

function poll_link :: "pyrt \<Rightarrow> uiapi \<Rightarrow> int \<Rightarrow> string \<Rightarrow> nat \<Rightarrow> world \<Rightarrow> (exn + string option) \<times> world" where
  "poll_link E u inbound_id email deadline w =
     (if clock_ms w < deadline then
        (case poll_step E u inbound_id email w of
           (Inl e, w') \<Rightarrow> (Inl e, w')
         | (Inr (Return r), w') \<Rightarrow> (Inr r, w')
         | (Inr Retry, w') \<Rightarrow> poll_link E u inbound_id email deadline (sleep 400 w'))
      else (Inr None, w))"
  by pat_completeness auto

definition try_get_client_vless_link :: "pyrt \<Rightarrow> uiapi \<Rightarrow> int \<Rightarrow> string \<Rightarrow> int \<Rightarrow> world \<Rightarrow> (exn + string option) \<times> world" where
  "try_get_client_vless_link E u inbound_id email wait_seconds w =
     poll_link E u inbound_id email (clock_ms w + 1000 * nat (max 1 wait_seconds)) w"

definition get_client_vless_link :: "pyrt \<Rightarrow> uiapi \<Rightarrow> int \<Rightarrow> string \<Rightarrow> world \<Rightarrow> (exn + string) \<times> world" where
  "get_client_vless_link E u inbound_id email w =
     (case try_get_client_vless_link E u inbound_id email 12 w of
        (Inl e, w') \<Rightarrow> (Inl e, w')
      | (Inr link, w') \<Rightarrow>
          (case link of
             None \<Rightarrow> (Inl (LookupError email inbound_id), w')
           | Some l \<Rightarrow> (if l = [] then (Inl (LookupError email inbound_id), w') else (Inr l, w'))))"

section \<open>Creating a client (ui_api.py 239-301)\<close>

text \<open>
  Lines 259-267. \<open>total_gb\<close> is a whole number of gigabytes, as every caller passes it;
  \<open>flow\<close> is \<^verbatim>\<open>Optional[str]\<close>.
\<close>

definition client_obj :: "string \<Rightarrow> string \<Rightarrow> int \<Rightarrow> int \<Rightarrow> int \<Rightarrow> string option \<Rightarrow> (string \<times> json) list" where
  "client_obj client_uuid email limit_ip total_gb expiry_time_ms flow =
     [(''id'', JStr client_uuid),
      (''email'', JStr email),
      (''limitIp'', JInt (if limit_ip \<noteq> 0 then limit_ip else 0)),
      (''totalGB'', JInt (if total_gb \<noteq> 0 then total_gb * 1024 * 1024 * 1024 else 0)),
      (''expiryTime'', JInt (if expiry_time_ms \<noteq> 0 then expiry_time_ms else 0))]
     @ (case flow of
          None \<Rightarrow> []
        | Some f \<Rightarrow> (if f \<noteq> [] then [(''flow'', JStr f)] else []))"

text \<open>
  Lines 282-294: the path variants in turn, until one answers \<^verbatim>\<open>success is True\<close>. The
  result is \<^verbatim>\<open>(ok, last_res)\<close>.
\<close>

fun try_add_paths :: "pyrt \<Rightarrow> uiapi \<Rightarrow> int \<Rightarrow> (string \<times> json) list \<Rightarrow> string list \<Rightarrow> json \<Rightarrow> world \<Rightarrow> (bool \<times> json) \<times> world" where
  "try_add_paths E u inbound_id payload [] last_res w = ((False, last_res), w)"
| "try_add_paths E u inbound_id payload (p # ps) last_res w =
     (let body = (if \<not> contains p ''{inbound_id}'' \<and> \<not> endswith p (''/'' @ str_of_int inbound_id)
                  then JObj payload
                  else JObj [(''settings'', dict_get payload ''settings'')])
      in case post E u p body w of
           (Inl msg, w') \<Rightarrow>
             try_add_paths E u inbound_id payload ps
               (JObj [(''success'', JBool False), (''msg'', JStr msg)]) w'
         | (Inr res, w') \<Rightarrow>
             (if is_dict res \<and> py_get res ''success'' = Inr (JBool True) then ((True, res), w')
              else try_add_paths E u inbound_id payload ps res w'))"

definition add_client_paths :: "int \<Rightarrow> string list" where
  "add_client_paths inbound_id =
     [''panel/inbound/addClient'',
      ''panel/inbound/addClient/'' @ str_of_int inbound_id,
      ''xui/inbound/addClient'',
      ''inbound/addClient'']"

definition add_client :: "pyrt \<Rightarrow> uiapi \<Rightarrow> int \<Rightarrow> string \<Rightarrow> int \<Rightarrow> int \<Rightarrow> int \<Rightarrow> string option \<Rightarrow> int \<Rightarrow> world \<Rightarrow> (exn + string) \<times> world" where
  "add_client E u inbound_id email limit_ip total_gb expiry_time_ms flow wait_seconds w =
     (case get_inbounds_list E u w of
        (Inl e, w1) \<Rightarrow> (Inl e, w1)
      | (Inr inbounds, w1) \<Rightarrow>
          (case py_iter inbounds of
             Inl e \<Rightarrow> (Inl e, w1)
           | Inr ibs \<Rightarrow>
               (case find_inbound (py_repr E) inbound_id ibs of
                  Inl e \<Rightarrow> (Inl e, w1)
                | Inr None \<Rightarrow>
                    (Inl (RuntimeError (InboundNotListed inbound_id
                            (map (\<lambda>ib. dict_get (entries ib) ''id'') ibs))), w1)
                | Inr (Some ib) \<Rightarrow>
                    (let client_uuid = uuid4 E w1;
                         payload =
                           [(''id'', JInt inbound_id),
                            (''settings'', JStr (json_dumps E (JObj [(''clients'',
                               JList [JObj (client_obj client_uuid email limit_ip total_gb
                                              expiry_time_ms flow)])])))]
                     in case try_add_paths E u inbound_id payload (add_client_paths inbound_id)
                               (JObj []) w1 of
                          ((ok, last_res), w2) \<Rightarrow>
                            (if \<not> ok then (Inl (RuntimeError (AddClientFailed last_res)), w2)
                             else get_client_vless_link E u inbound_id email w2)))))"

section \<open>Raising and setting the traffic ceiling (ui_api.py 303-406)\<close>

text \<open>Lines 308 and 366-370: \<^verbatim>\<open>inbound["settings"]\<close>, parsed when it is a string.\<close>

definition load_settings :: "pyrt \<Rightarrow> (string \<times> json) list \<Rightarrow> exn + json" where
  "load_settings E inbound =
     (case map_of inbound ''settings'' of
        None \<Rightarrow> Inl (KeyError ''settings'')
      | Some sv \<Rightarrow>
          (case sv of
             JStr s \<Rightarrow> (case json_loads E s of None \<Rightarrow> Inl JSONDecodeError | Some v \<Rightarrow> Inr v)
           | _ \<Rightarrow> (case py_dict (dict_of_list E) sv of Inl e \<Rightarrow> Inl e | Inr d \<Rightarrow> Inr (JObj d))))"

text \<open>
  Lines 313-320: the loop over the clients, with the client it changes in place.
  \<open>Inr None\<close> is \<^verbatim>\<open>found = False\<close> at the end of the loop.
\<close>

fun add_traffic_loop :: "(string \<Rightarrow> int option) \<Rightarrow> string \<Rightarrow> int \<Rightarrow> json list \<Rightarrow> exn + json list option" where
  "add_traffic_loop ios email add_gb [] = Inr None"
| "add_traffic_loop ios email add_gb (c # cs) =
     (case py_get c ''email'' of
        Inl e \<Rightarrow> Inl e
      | Inr v \<Rightarrow>
          (if v = JStr email then
             (case py_int ios (py_or (dict_get (entries c) ''totalGB'') (JInt 0)) of
                Inl e \<Rightarrow> Inl e
              | Inr current_limit \<Rightarrow>
                  (if current_limit = 0 then Inl (RuntimeError UnlimitedPlan)
                   else Inr (Some (JObj (dict_set (entries c) ''totalGB''
                                     (JInt (current_limit + add_gb * (1024 * 1024 * 1024)))) # cs))))
           else (case add_traffic_loop ios email add_gb cs of
                   Inl e \<Rightarrow> Inl e
                 | Inr None \<Rightarrow> Inr None
                 | Inr (Some cs') \<Rightarrow> Inr (Some (c # cs')))))"

text \<open>Lines 327-337 and 391-401: the full payload of an update.\<close>

definition update_payload :: "int \<Rightarrow> (string \<times> json) list \<Rightarrow> string \<Rightarrow> json" where
  "update_payload inbound_id inbound settings_text =
     JObj [(''id'', JInt inbound_id),
           (''remark'', dict_get_default inbound ''remark'' (JStr [])),
           (''port'', dict_get inbound ''port''),
           (''protocol'', dict_get inbound ''protocol''),
           (''settings'', JStr settings_text),
           (''streamSettings'', dict_get inbound ''streamSettings''),
           (''sniffing'', dict_get inbound ''sniffing''),
           (''enable'', dict_get_default inbound ''enable'' (JBool True)),
           (''tag'', dict_get inbound ''tag'')]"

text \<open>Lines 344 and bot.py 817: the first client whose email equals the given one.\<close>

fun find_by_email :: "string \<Rightarrow> json list \<Rightarrow> exn + json" where
  "find_by_email email [] = Inr JNull"
| "find_by_email email (c # cs) =
     (case py_get c ''email'' of
        Inl e \<Rightarrow> Inl e
      | Inr v \<Rightarrow> (if v = JStr email then Inr c else find_by_email email cs))"

definition add_traffic :: "pyrt \<Rightarrow> uiapi \<Rightarrow> int \<Rightarrow> string \<Rightarrow> int \<Rightarrow> world \<Rightarrow> (exn + bool) \<times> world" where
  "add_traffic E u inbound_id email add_gb w =
     (case get_inbound E u inbound_id w of
        (Inl e, w1) \<Rightarrow> (Inl e, w1)
      | (Inr inbound, w1) \<Rightarrow>
          (if \<not> truthy inbound then (Inl (RuntimeError (InboundNotFound inbound_id)), w1)
           else
             (case load_settings E (entries inbound) of
                Inl e \<Rightarrow> (Inl e, w1)
              | Inr settings \<Rightarrow>
                  (case py_get settings ''clients'' of
                     Inl e \<Rightarrow> (Inl e, w1)
                   | Inr cv \<Rightarrow>
                       (case py_iter (dict_get_default (entries settings) ''clients'' (JList [])) of
                          Inl e \<Rightarrow> (Inl e, w1)
                        | Inr clients \<Rightarrow>
                            (case add_traffic_loop (int_of_str E) email add_gb clients of
                               Inl e \<Rightarrow> (Inl e, w1)
                             | Inr None \<Rightarrow> (Inl (RuntimeError (ClientNotFound email)), w1)
                             | Inr (Some clients') \<Rightarrow>
                                 (let settings' = JObj (dict_set (entries settings) ''clients'' (JList clients'));
                                      payload = update_payload inbound_id (entries inbound)
                                                  (json_dumps E settings')
                                  in case post E u (''panel/inbound/update/'' @ str_of_int inbound_id)
                                            payload w1 of
                                       (Inl msg, w2) \<Rightarrow> (Inl (TransportError msg), w2)
                                     | (Inr res, w2) \<Rightarrow>
                                         (case py_get res ''success'' of
                                            Inl e \<Rightarrow> (Inl e, w2)
                                          | Inr ok \<Rightarrow>
                                              (if \<not> truthy ok
                                               then (Inl (RuntimeError (UpdateFailed res)), w2)
                                               else
                                                 (case get_clients_list E u inbound_id w2 of
                                                    (Inl e, w3) \<Rightarrow> (Inl e, w3)
                                                  | (Inr lst, w3) \<Rightarrow>
                                                      (case py_iter lst of
                                                         Inl e \<Rightarrow> (Inl e, w3)
                                                       | Inr cs \<Rightarrow>
                                                           (case find_by_email email cs of
                                                              Inl e \<Rightarrow> (Inl e, w3)
                                                            | Inr updated_client \<Rightarrow> (Inr True, w3)))))))))))))"

text \<open>Lines 374-382 of \<^verbatim>\<open>update_client\<close>.\<close>

fun update_client_loop :: "string \<Rightarrow> int \<Rightarrow> int option \<Rightarrow> json list \<Rightarrow> exn + json list option" where
  "update_client_loop email total_gb expiry_time_ms [] = Inr None"
| "update_client_loop email total_gb expiry_time_ms (c # cs) =
     (case py_get c ''email'' of
        Inl e \<Rightarrow> Inl e
      | Inr v \<Rightarrow>
          (if v = JStr email then
             (let c1 = dict_set (entries c) ''totalGB'' (JInt (total_gb * 1024 ^ 3));
                  c2 = (case expiry_time_ms of
                          None \<Rightarrow> c1
                        | Some t \<Rightarrow> dict_set c1 ''expiryTime'' (JInt t))
              in Inr (Some (JObj c2 # cs)))
           else (case update_client_loop email total_gb expiry_time_ms cs of
                   Inl e \<Rightarrow> Inl e
                 | Inr None \<Rightarrow> Inr None
                 | Inr (Some cs') \<Rightarrow> Inr (Some (c # cs')))))"

definition update_client :: "pyrt \<Rightarrow> uiapi \<Rightarrow> int \<Rightarrow> string \<Rightarrow> int \<Rightarrow> int option \<Rightarrow> world \<Rightarrow> (exn + bool) \<times> world" where
  "update_client E u inbound_id email total_gb expiry_time_ms w =
     (case get_inbound E u inbound_id w of
        (Inl e, w1) \<Rightarrow> (Inl e, w1)
      | (Inr inbound, w1) \<Rightarrow>
          (if \<not> truthy inbound then (Inl (RuntimeError (InboundNotFound inbound_id)), w1)
           else
             (case load_settings E (entries inbound) of
                Inl e \<Rightarrow> (Inl e, w1)
              | Inr settings \<Rightarrow>
                  (case py_get settings ''clients'' of
                     Inl e \<Rightarrow> (Inl e, w1)
                   | Inr cv \<Rightarrow>
                       (case py_iter (dict_get_default (entries settings) ''clients'' (JList [])) of
                          Inl e \<Rightarrow> (Inl e, w1)
                        | Inr clients \<Rightarrow>
                            (case update_client_loop email total_gb expiry_time_ms clients of
                               Inl e \<Rightarrow> (Inl e, w1)
                             | Inr None \<Rightarrow> (Inl (RuntimeError (ClientNotFound email)), w1)
                             | Inr (Some clients') \<Rightarrow>
                                 (let settings' = JObj (dict_set (entries settings) ''clients'' (JList clients'));
                                      payload = update_payload inbound_id (entries inbound)
                                                  (json_dumps E settings')
                                  in case post E u (''panel/inbound/update/'' @ str_of_int inbound_id)
                                            payload w1 of
                                       (Inl msg, w2) \<Rightarrow> (Inl (TransportError msg), w2)
                                     | (Inr res, w2) \<Rightarrow>
                                         (if \<not> (is_dict res \<and> py_get res ''success'' = Inr (JBool True))
                                          then (Inl (RuntimeError (UpdateClientFailed res)), w2)
                                          else (Inr True, w2)))))))))"

section \<open>The admin's create-client handler (bot.py 63-70, 175-181, 786-865)\<close>








section \<open>A concrete runtime and panel\<close>

text \<open>
  The theorems below hold for every runtime and every panel. To run the client on
  concrete inputs the parameters are instantiated with a compact JSON printer, a parser
  of the texts it prints, and a panel that serves one inbound.
\<close>

definition quote_str :: "string \<Rightarrow> string" where
  "quote_str s =
     CHR ''\"'' # concat (map (\<lambda>c. if c = CHR ''\"'' \<or> c = CHR 0x5C then [CHR 0x5C, c] else [c]) s) @ [CHR ''\"'']"

fun dumps_compact :: "json \<Rightarrow> string" where
  "dumps_compact JNull = ''null''"
| "dumps_compact (JBool b) = (if b then ''true'' else ''false'')"
| "dumps_compact (JInt n) = str_of_int n"
| "dumps_compact (JStr s) = quote_str s"
| "dumps_compact (JList xs) = ''['' @ join '','' (map dumps_compact xs) @ '']''"
| "dumps_compact (JObj kvs) =
     ''{'' @ join '','' (map (\<lambda>(k, v). quote_str k @ '':'' @ dumps_compact v) kvs) @ ''}''"

fun parse_string_body :: "string \<Rightarrow> (string \<times> string) option" where
  "parse_string_body [] = None"
| "parse_string_body (c # cs) =
     (if c = CHR ''\"'' then Some ([], cs)
      else if c = CHR 0x5C then
        (case cs of
           [] \<Rightarrow> None
         | d # ds \<Rightarrow>
             (if d = CHR ''\"'' \<or> d = CHR 0x5C
              then map_option (\<lambda>(s, r). (d # s, r)) (parse_string_body ds)
              else None))
      else map_option (\<lambda>(s, r). (c # s, r)) (parse_string_body cs))"

definition is_digit :: "char \<Rightarrow> bool" where
  "is_digit c = (48 \<le> (of_char c :: nat) \<and> (of_char c :: nat) \<le> 57)"

definition nat_of_digits :: "string \<Rightarrow> nat" where
  "nat_of_digits ds = foldl (\<lambda>a c. 10 * a + ((of_char c :: nat) - 48)) 0 ds"

definition parse_int :: "string \<Rightarrow> (json \<times> string) option" where
  "parse_int s =
     (let neg = startswith s ''-'';
          t = (if neg then drop 1 s else s);
          ds = takeWhile is_digit t
      in if ds = [] then None
         else Some (JInt (if neg then - int (nat_of_digits ds) else int (nat_of_digits ds)),
                    dropWhile is_digit t))"

fun parse_value :: "nat \<Rightarrow> string \<Rightarrow> (json \<times> string) option"
  and parse_elems :: "nat \<Rightarrow> string \<Rightarrow> (json list \<times> string) option"
  and parse_members :: "nat \<Rightarrow> string \<Rightarrow> ((string \<times> json) list \<times> string) option" where
  "parse_value 0 s = None"
| "parse_value (Suc n) s =
     (if startswith s ''null'' then Some (JNull, drop 4 s)
      else if startswith s ''true'' then Some (JBool True, drop 4 s)
      else if startswith s ''false'' then Some (JBool False, drop 5 s)
      else if startswith s ''\"'' then map_option (\<lambda>(t, r). (JStr t, r)) (parse_string_body (drop 1 s))
      else if startswith s ''[]'' then Some (JList [], drop 2 s)
      else if startswith s ''['' then map_option (\<lambda>(xs, r). (JList xs, r)) (parse_elems n (drop 1 s))
      else if startswith s ''{}'' then Some (JObj [], drop 2 s)
      else if startswith s ''{'' then map_option (\<lambda>(kvs, r). (JObj kvs, r)) (parse_members n (drop 1 s))
      else parse_int s)"
| "parse_elems 0 s = None"
| "parse_elems (Suc n) s =
     (case parse_value n s of
        None \<Rightarrow> None
      | Some (v, r) \<Rightarrow>
          (if startswith r '','' then map_option (\<lambda>(xs, r'). (v # xs, r')) (parse_elems n (drop 1 r))
           else if startswith r '']'' then Some ([v], drop 1 r)
           else None))"
| "parse_members 0 s = None"
| "parse_members (Suc n) s =
     (if startswith s ''\"'' then
        (case parse_string_body (drop 1 s) of
           None \<Rightarrow> None
         | Some (k, r) \<Rightarrow>
             (if startswith r '':'' then
                (case parse_value n (drop 1 r) of
                   None \<Rightarrow> None
                 | Some (v, r') \<Rightarrow>
                     (if startswith r' '','' then
                        map_option (\<lambda>(kvs, r''). ((k, v) # kvs, r'')) (parse_members n (drop 1 r'))
                      else if startswith r' ''}'' then Some ([(k, v)], drop 1 r')
                      else None))
              else None))
      else None)"

definition loads_min :: "string \<Rightarrow> json option" where
  "loads_min s =
     (case parse_value (Suc (length s)) s of
        None \<Rightarrow> None
      | Some (v, r) \<Rightarrow> (if r = [] then Some v else None))"

text \<open>
  A panel that lists the inbound \<open>ib\<close>, answers an \<^verbatim>\<open>addClient\<close> request with \<open>add_res\<close>
  and every other request with \<^verbatim>\<open>{"success": true}\<close>; every exchange takes 50 ms.
\<close>

definition demo_panel :: "json \<Rightarrow> json \<Rightarrow> world \<Rightarrow> request \<Rightarrow> http_result \<times> nat" where
  "demo_panel ib add_res w rq =
     (if endswith (req_url rq) ''/panel/inbound/list''
      then (HttpResponse None (Some (JObj [(''success'', JBool True), (''obj'', JList [ib])])) [], 50)
      else if contains (req_url rq) ''addClient''
      then (HttpResponse None (Some add_res) [], 50)
      else (HttpResponse None (Some (JObj [(''success'', JBool True)])) [], 50))"

definition demo_rt :: "json \<Rightarrow> json \<Rightarrow> pyrt" where
  "demo_rt ib add_res =
     \<lparr>json_loads = loads_min,
      json_dumps = dumps_compact,
      urlparse_hostname = (\<lambda>url. Some ''panel.example''),
      py_repr = dumps_compact,
      dict_of_list = (\<lambda>xs. if xs = [] then Inr [] else Inl TypeError),
      int_of_str = (\<lambda>s. None),
      uuid4 = (\<lambda>w. ''123e4567-e89b-42d3-a456-426614174000''),
      panel = demo_panel ib add_res\<rparr>"

definition demo_api :: uiapi where
  "demo_api = \<lparr>secret_base = ''http://panel.example/secret'',
               panel_base = ''http://panel.example/secret/panel''\<rparr>"

definition world0 :: world where
  "world0 = \<lparr>clock_ms = 0, sent = []\<rparr>"

text \<open>The inbound of the specification's end-to-end scenario, with its client.\<close>

definition alice :: "(string \<times> json) list" where
  "alice = [(''id'', JStr ''11111111-2222''), (''email'', JStr ''alice''),
            (''totalGB'', JInt 1000), (''flow'', JStr ''xtls-rprx-vision'')]"

definition demo_stream :: json where
  "demo_stream =
     JObj [(''realitySettings'',
              JObj [(''publicKey'', JStr ''PK1''), (''shortIds'', JList [JStr ''ab12'']),
                    (''serverNames'', JList [JStr ''example.com''])]),
           (''tlsSettings'', JObj [(''fingerprint'', JStr ''chrome'')])]"

definition demo_inbound :: "(string \<times> json) list \<Rightarrow> json" where
  "demo_inbound client =
     JObj [(''id'', JInt 2), (''port'', JInt 443), (''protocol'', JStr ''vless''),
           (''remark'', JStr ''srv1''),
           (''settings'', JStr (dumps_compact (JObj [(''clients'', JList [JObj client])]))),
           (''streamSettings'', JStr (dumps_compact demo_stream))]"

definition demo_settings :: "(string \<times> json) list" where
  "demo_settings = [(''clients'', JList [JObj alice])]"

text \<open>A panel fork whose list endpoint answers with the bare list of inbounds.\<close>

definition bare_list_rt :: "json \<Rightarrow> pyrt" where
  "bare_list_rt ib =
     (demo_rt ib JNull)\<lparr>panel := (\<lambda>w rq. (HttpResponse None (Some (JList [ib])) [], 50))\<rparr>"

definition world1 :: world where
  "world1 = \<lparr>clock_ms = 50,
              sent = [\<lparr>req_method = POST,
                       req_url = ''http://panel.example/secret/panel/inbound/list'',
                       req_json = JObj []\<rparr>]\<rparr>"

text \<open>
  The values the loop body of \<^verbatim>\<open>try_get_client_vless_link\<close> binds from the inbound
  (lines 178-179, 186, 189, 190), named so that statements about the link can refer to
  them.
\<close>

definition link_clients_of :: "pyrt \<Rightarrow> (string \<times> json) list \<Rightarrow> json" where
  "link_clients_of E inbound =
     (let settings = entries (safe_json_load (json_loads E) (py_or (dict_get inbound ''settings'') (JObj [])))
      in py_or (dict_get settings ''clients'') (py_or (dict_get inbound ''clients'') (JList [])))"

definition stream_settings_of :: "pyrt \<Rightarrow> (string \<times> json) list \<Rightarrow> (string \<times> json) list" where
  "stream_settings_of E inbound =
     entries (safe_json_load (json_loads E) (py_or (dict_get inbound ''streamSettings'') (JObj [])))"

definition reality_settings_of :: "pyrt \<Rightarrow> (string \<times> json) list \<Rightarrow> (string \<times> json) list" where
  "reality_settings_of E inbound =
     entries (safe_json_load (json_loads E)
                (py_or (dict_get (stream_settings_of E inbound) ''realitySettings'') (JObj [])))"

definition tls_settings_of :: "pyrt \<Rightarrow> (string \<times> json) list \<Rightarrow> (string \<times> json) list" where
  "tls_settings_of E inbound =
     entries (safe_json_load (json_loads E)
                (py_or (dict_get (stream_settings_of E inbound) ''tlsSettings'') (JObj [])))"

text \<open>A field that is present: the key is there and its value is truthy.\<close>

definition present :: "(string \<times> json) list \<Rightarrow> string \<Rightarrow> json option" where
  "present d k =
     (case map_of d k of
        None \<Rightarrow> None
      | Some v \<Rightarrow> (if truthy v then Some v else None))"

text \<open>
  The text of a link as the specification composes it: scheme, credential, host, port,
  the eight query parameters in their fixed order, and the fragment.
\<close>

definition link_text :: "pyrt \<Rightarrow> uiapi \<Rightarrow> string \<Rightarrow> (string \<times> json) list \<Rightarrow> (string \<times> json) list \<Rightarrow> string \<Rightarrow> string \<Rightarrow> string" where
  "link_text E u email inbound client flow remark =
     ''vless://'' @ py_str (py_repr E) (py_or (dict_get client ''id'') (dict_get client ''password''))
     @ ''@'' @ resolve_server_host E u
     @ '':'' @ py_str (py_repr E) (py_or (dict_get inbound ''port'') (JStr []))
     @ ''?type=tcp&security=reality&pbk=''
     @ py_str (py_repr E) (public_key_of (json_loads E) (reality_settings_of E inbound))
     @ ''&fp='' @ py_str (py_repr E) (fp_of (tls_settings_of E inbound) (reality_settings_of E inbound))
     @ ''&sni='' @ py_str (py_repr E) (sni_of (reality_settings_of E inbound) (resolve_server_host E u))
     @ ''&sid='' @ py_str (py_repr E) (short_id_of (reality_settings_of E inbound))
     @ ''&spx=%2F&flow='' @ flow
     @ ''#'' @ (if strip remark = [] then email else strip remark @ ''-'' @ email)"

text \<open>A client whose flow label was stored with a trailing space.\<close>

definition spaced_client :: "(string \<times> json) list" where
  "spaced_client = [(''id'', JStr ''11111111-2222''), (''email'', JStr ''alice''),
                    (''totalGB'', JInt 1000), (''flow'', JStr ''xtls-rprx-vision '')]"

text \<open>
  The requests that only read the panel: the list request and the two direct fetches of
  \<^verbatim>\<open>get_inbound\<close>. \<open>reads_only u i w w'\<close> says that \<open>w'\<close> continues the requests of \<open>w\<close>
  with such requests alone.
\<close>

definition is_read_request :: "uiapi \<Rightarrow> int \<Rightarrow> request \<Rightarrow> bool" where
  "is_read_request u inbound_id rq =
     (rq = \<lparr>req_method = POST, req_url = build_url u ''panel/inbound/list'', req_json = JObj []\<rparr>
      \<or> rq = \<lparr>req_method = GET,
                req_url = build_url u (''panel/inbound/get/'' @ str_of_int inbound_id),
                req_json = JNull\<rparr>
      \<or> rq = \<lparr>req_method = GET, req_url = build_url u ''panel/inbound/get'',
                req_json = JObj [(''id'', JInt inbound_id)]\<rparr>)"

definition reads_only :: "uiapi \<Rightarrow> int \<Rightarrow> world \<Rightarrow> world \<Rightarrow> bool" where
  "reads_only u inbound_id w w' =
     (take (length (sent w)) (sent w') = sent w
      \<and> list_all (is_read_request u inbound_id) (drop (length (sent w)) (sent w')))"

text \<open>The update request of \<^verbatim>\<open>add_traffic\<close> and \<^verbatim>\<open>update_client\<close> (lines 339 and 403).\<close>

definition update_request :: "uiapi \<Rightarrow> int \<Rightarrow> json \<Rightarrow> request" where
  "update_request u inbound_id payload =
     \<lparr>req_method = POST,
      req_url = build_url u (''panel/inbound/update/'' @ str_of_int inbound_id),
      req_json = payload\<rparr>"

text \<open>Clients for the concrete panel: one without a credential, one on the unlimited plan.\<close>

definition anon_client :: "(string \<times> json) list" where
  "anon_client = [(''email'', JStr ''alice''), (''totalGB'', JInt 1000)]"

definition unlimited_client :: "(string \<times> json) list" where
  "unlimited_client = [(''id'', JStr ''11111111-2222''), (''email'', JStr ''alice''),
                       (''totalGB'', JInt 0)]"

text \<open>The concrete inbound with any list of clients, and a second client.\<close>

definition demo_inbound_clients :: "json list \<Rightarrow> json" where
  "demo_inbound_clients cs =
     JObj [(''id'', JInt 2), (''port'', JInt 443), (''protocol'', JStr ''vless''),
           (''remark'', JStr ''srv1''),
           (''settings'', JStr (dumps_compact (JObj [(''clients'', JList cs)]))),
           (''streamSettings'', JStr (dumps_compact demo_stream))]"

definition bob :: "(string \<times> json) list" where
  "bob = [(''id'', JStr ''33333333-4444''), (''email'', JStr ''bob''), (''totalGB'', JInt 5)]"

text \<open>Two runtimes whose panel serves two clients: alice unlimited, and alice limited.\<close>

definition unlimited_inbound :: json where
  "unlimited_inbound = demo_inbound_clients [JObj bob, JObj unlimited_client]"

definition limited_inbound :: json where
  "limited_inbound = demo_inbound_clients [JObj bob, JObj alice]"

definition unlimited_rt :: pyrt where
  "unlimited_rt = demo_rt unlimited_inbound JNull"

definition limited_rt :: pyrt where
  "limited_rt = demo_rt limited_inbound JNull"




text \<open>The keys an update payload carries over from the inbound.\<close>

definition carried_keys :: "string list" where
  "carried_keys = [''remark'', ''port'', ''protocol'', ''streamSettings'', ''sniffing'', ''enable'', ''tag'']"



text \<open>Lines 377-380: the client \<^verbatim>\<open>update_client\<close> leaves in place of the one it found.\<close>

definition updated_client :: "(string \<times> json) list \<Rightarrow> int \<Rightarrow> int option \<Rightarrow> (string \<times> json) list" where
  "updated_client c total_gb expiry_time_ms =
     (case expiry_time_ms of
        None \<Rightarrow> dict_set c ''totalGB'' (JInt (total_gb * 1024 ^ 3))
      | Some t \<Rightarrow> dict_set (dict_set c ''totalGB'' (JInt (total_gb * 1024 ^ 3))) ''expiryTime'' (JInt t))"

text \<open>
  A panel fork whose list endpoint answers without \<^verbatim>\<open>success: true\<close> and with an
  \<^verbatim>\<open>obj\<close> that is not a list; the admins and the clock arithmetic of the concrete bot.
\<close>

definition odd_obj_rt :: pyrt where
  "odd_obj_rt =
     (demo_rt JNull JNull)\<lparr>panel := (\<lambda>w rq.
        (HttpResponse None (Some (JObj [(''success'', JBool False), (''obj'', JStr ''abc'')])) [], 50))\<rparr>"



section \<open>The clock and the polling loop\<close>

text \<open>A request appends itself to the requests sent and never turns the clock back.\<close>

lemma request_world:
  "snd (request E u m p j w) =
     w\<lparr>clock_ms := clock_ms w + snd (panel E w \<lparr>req_method = m, req_url = build_url u p, req_json = j\<rparr>),
       sent := sent w @ [\<lparr>req_method = m, req_url = build_url u p, req_json = j\<rparr>]\<rparr>"
  by (simp add: request_def Let_def split: http_result.splits option.splits)

lemma request_clock: "clock_ms w \<le> clock_ms (snd (request E u m p j w))"
  by (simp add: request_world)

lemma get_inbounds_list_clock: "clock_ms w \<le> clock_ms (snd (get_inbounds_list E u w))"
  using request_clock [of w E u POST "''panel/inbound/list''" "JObj []"]
  by (auto simp: get_inbounds_list_def post_def Let_def split: prod.splits sum.splits)

lemma get_inbound_variants_clock: "clock_ms w \<le> clock_ms (snd (get_inbound_variants E u vs w))"
proof (induction vs arbitrary: w)
  case Nil
  then show ?case by simp
next
  case (Cons v vs)
  obtain m p j where v: "v = (m, p, j)" by (cases v) auto
  have "clock_ms w \<le> clock_ms (snd (request E u m p j w))" by (rule request_clock)
  moreover have "clock_ms (snd (request E u m p j w))
       \<le> clock_ms (snd (get_inbound_variants E u vs (snd (request E u m p j w))))"
    by (rule Cons.IH)
  ultimately show ?case
    by (auto simp: v split: prod.splits sum.splits option.splits)
qed

lemma get_inbound_clock: "clock_ms w \<le> clock_ms (snd (get_inbound E u i w))"
proof -
  obtain r w1 where l: "get_inbounds_list E u w = (r, w1)" by (cases "get_inbounds_list E u w")
  have a: "clock_ms w \<le> clock_ms w1"
    using get_inbounds_list_clock [of w E u] l by simp
  have b: "clock_ms w \<le> clock_ms (snd (get_inbound_variants E u vs w1))" for vs
    using a get_inbound_variants_clock [of w1 E u vs] by simp
  show ?thesis
    using a b
    by (simp add: get_inbound_def l split_beta split: sum.splits option.splits
          del: get_inbound_variants.simps)
qed

lemma poll_step_clock: "clock_ms w \<le> clock_ms (snd (poll_step E u i email w))"
  using get_inbound_clock [of w E u i]
  by (auto simp: poll_step_def split: prod.splits sum.splits)

text \<open>The polling loop ends: a pass that does not return moves the clock by 400 ms.\<close>

termination poll_link
proof (relation "measure (\<lambda>(E, u, i, email, deadline, w). deadline - clock_ms w)")
  show "wf (measure (\<lambda>(E, u, i, email, deadline, w). deadline - clock_ms w))" by simp
next
  fix E u i email deadline w x1 w' y
  assume lt: "clock_ms w < deadline" and st: "(x1, w') = poll_step E u i email w"
  have "clock_ms w \<le> clock_ms w'"
    using poll_step_clock [of w E u i email] st [symmetric] by simp
  then show "((E, u, i, email, deadline, sleep 400 w'), (E, u, i, email, deadline, w))
        \<in> measure (\<lambda>(E, u, i, email, deadline, w). deadline - clock_ms w)"
    using lt by (simp add: sleep_def)
qed

declare poll_link.simps [simp del]

section \<open>The response normalizer: properties\<close>

lemma unwrap_json_in_levels: "unwrap_json loads n x \<in> set (parse_levels loads n x)"
proof (induction n arbitrary: x)
  case 0
  show ?case by simp
next
  case (Suc n)
  show ?case
  proof (cases x)
    case (JStr s)
    then show ?thesis
      using Suc.IH by (cases "loads s") auto
  qed simp_all
qed

text \<open>
  Claim C3. The response normalizer never raises and always returns a dict. Applied to a
  dict, to its JSON text and to the JSON text of that text (both of which \<^verbatim>\<open>json.loads\<close>
  reads back), it returns the dict itself each time. Applied to a payload none of
  whose levels, up to three parses deep, is a dict, it returns the empty dict; so it
  does on every string that \<^verbatim>\<open>json.loads\<close> rejects.
\<close>

theorem safe_json_load_normalizes:
  "(\<exists>d'. safe_json_load loads x = JObj d')
   \<and> (loads (dumps (JObj d)) = Some (JObj d)
        \<and> loads (dumps (JStr (dumps (JObj d)))) = Some (JStr (dumps (JObj d)))
      \<longrightarrow> safe_json_load loads (JObj d) = JObj d
          \<and> safe_json_load loads (JStr (dumps (JObj d))) = JObj d
          \<and> safe_json_load loads (JStr (dumps (JStr (dumps (JObj d))))) = JObj d)
   \<and> ((\<forall>v \<in> set (parse_levels loads 3 x). \<not> is_dict v) \<longrightarrow> safe_json_load loads x = JObj [])
   \<and> (loads s = None \<longrightarrow> safe_json_load loads (JStr s) = JObj [])"
proof (intro conjI impI)
  show "\<exists>d'. safe_json_load loads x = JObj d'"
    by (cases "unwrap_json loads 3 x") (simp_all add: safe_json_load_def)
next
  assume h: "loads (dumps (JObj d)) = Some (JObj d)
        \<and> loads (dumps (JStr (dumps (JObj d)))) = Some (JStr (dumps (JObj d)))"
  show "safe_json_load loads (JObj d) = JObj d"
    by (simp add: safe_json_load_def eval_nat_numeral)
  show "safe_json_load loads (JStr (dumps (JObj d))) = JObj d"
    using h by (simp add: safe_json_load_def eval_nat_numeral)
  show "safe_json_load loads (JStr (dumps (JStr (dumps (JObj d))))) = JObj d"
    using h by (simp add: safe_json_load_def eval_nat_numeral)
next
  assume "\<forall>v \<in> set (parse_levels loads 3 x). \<not> is_dict v"
  then have "\<not> is_dict (unwrap_json loads 3 x)"
    using unwrap_json_in_levels [of loads 3 x] by blast
  then show "safe_json_load loads x = JObj []"
    by (simp add: safe_json_load_def)
next
  assume "loads s = None"
  then show "safe_json_load loads (JStr s) = JObj []"
    by (simp add: safe_json_load_def eval_nat_numeral)
qed

text \<open>The same on the codec of this file, for the settings of one client and two strings.\<close>

theorem safe_json_load_normalizes_witness:
  "loads_min (dumps_compact (JObj demo_settings)) = Some (JObj demo_settings)
   \<and> loads_min (dumps_compact (JStr (dumps_compact (JObj demo_settings))))
       = Some (JStr (dumps_compact (JObj demo_settings)))
   \<and> safe_json_load loads_min (JObj demo_settings) = JObj demo_settings
   \<and> safe_json_load loads_min (JStr (dumps_compact (JObj demo_settings))) = JObj demo_settings
   \<and> safe_json_load loads_min (JStr (dumps_compact (JStr (dumps_compact (JObj demo_settings)))))
       = JObj demo_settings
   \<and> list_all (\<lambda>v. \<not> is_dict v) (parse_levels loads_min 3 (JStr ''[1,2]''))
   \<and> safe_json_load loads_min (JStr ''[1,2]'') = JObj []
   \<and> loads_min ''not json'' = None
   \<and> safe_json_load loads_min (JStr ''not json'') = JObj []"
proof -
  have h1: "loads_min (dumps_compact (JObj demo_settings)) = Some (JObj demo_settings)"
    by code_simp
  have h2: "loads_min (dumps_compact (JStr (dumps_compact (JObj demo_settings))))
       = Some (JStr (dumps_compact (JObj demo_settings)))"
    by code_simp
  have h3: "list_all (\<lambda>v. \<not> is_dict v) (parse_levels loads_min 3 (JStr ''[1,2]''))"
    by code_simp
  have h4: "loads_min ''not json'' = None"
    by code_simp
  have h3': "\<forall>v \<in> set (parse_levels loads_min 3 (JStr ''[1,2]'')). \<not> is_dict v"
    using h3 by (simp only: list_all_iff)
  note t1 = safe_json_load_normalizes [of loads_min "JStr ''[1,2]''" dumps_compact demo_settings "''not json''"]
  show ?thesis
    using t1 h1 h2 h3 h3' h4 by blast
qed

section \<open>Assembling the link: properties\<close>

lemma poll_link_returns_link:
  "poll_link E u i email d w = (Inr (Some link), w') \<Longrightarrow>
     \<exists>w1. clock_ms w1 < d \<and> poll_step E u i email w1 = (Inr (Return (Some link)), w')"
proof (induction E u i email d w rule: poll_link.induct)
  case (1 E u i email d w)
  note eq = "1.prems"
  have lt: "clock_ms w < d"
    using eq by (subst (asm) poll_link.simps) (simp split: if_splits)
  obtain r w2 where st: "poll_step E u i email w = (r, w2)"
    by (cases "poll_step E u i email w")
  show ?case
  proof (cases r)
    case (Inl e)
    then show ?thesis
      using eq lt st by (subst (asm) poll_link.simps) simp
  next
    case (Inr out)
    show ?thesis
    proof (cases out)
      case Retry
      have "poll_link E u i email d (sleep 400 w2) = (Inr (Some link), w')"
        using eq lt st Inr Retry by (subst (asm) poll_link.simps) simp
      then show ?thesis
        using "1.IH" [OF lt st [symmetric] Inr Retry] by blast
    next
      case (Return r')
      then have "r' = Some link" "w2 = w'"
        using eq lt st Inr by (subst (asm) poll_link.simps, simp)+
      then show ?thesis
        using lt st Inr Return by blast
    qed
  qed
qed


lemma find_client_result:
  "find_client target cs = Inr c \<Longrightarrow> c = JNull \<or> (\<exists>kvs. c = JObj kvs)"
proof (induction cs)
  case Nil
  then show ?case by simp
next
  case (Cons a cs)
  then show ?case
    by (cases a) (auto split: sum.splits json.splits if_splits)
qed

lemma vless_link_text:
  assumes "vless_link E u email inbound client = Inr (Some link)"
  shows "\<exists>flow remark.
           truthy (py_or (dict_get client ''id'') (dict_get client ''password''))
           \<and> flow_of client = Inr flow
           \<and> py_or (dict_get inbound ''remark'') (JStr []) = JStr remark
           \<and> link = link_text E u email inbound client flow remark"
proof -
  have cred: "truthy (py_or (dict_get client ''id'') (dict_get client ''password''))"
    using assms by (auto simp: vless_link_def Let_def split: if_splits)
  obtain flow where fl: "flow_of client = Inr flow"
    using assms cred by (cases "flow_of client") (auto simp: vless_link_def Let_def)
  obtain remark where rm: "py_or (dict_get inbound ''remark'') (JStr []) = JStr remark"
    using assms cred fl
    by (cases "py_or (dict_get inbound ''remark'') (JStr [])") (auto simp: vless_link_def Let_def)
  have "link = link_text E u email inbound client flow remark"
    using assms cred fl rm
    by (simp add: vless_link_def Let_def link_text_def reality_settings_of_def
          tls_settings_of_def stream_settings_of_def)
  then show ?thesis
    using cred fl rm by blast
qed

lemma resolve_in_link:
  assumes "resolve_in E u email inbound = Inr (Return (Some link))"
  shows "\<exists>ib cs client.
           inbound = JObj ib
           \<and> py_iter (link_clients_of E ib) = Inr cs
           \<and> find_client (lower (strip email)) cs = Inr (JObj client)
           \<and> vless_link E u email ib client = Inr (Some link)"
proof -
  obtain ib where ib: "inbound = JObj ib"
    using assms by (cases inbound) (auto simp: resolve_in_def split: if_splits)
  obtain cs where cs: "py_iter (link_clients_of E ib) = Inr cs"
    using assms ib
    by (cases "py_iter (link_clients_of E ib)")
       (auto simp: resolve_in_def link_clients_of_def Let_def split: if_splits)
  obtain c where c: "find_client (lower (strip email)) cs = Inr c"
    using assms ib cs
    by (cases "find_client (lower (strip email)) cs")
       (auto simp: resolve_in_def link_clients_of_def Let_def split: if_splits)
  have tc: "truthy c"
    using assms ib cs c
    by (auto simp: resolve_in_def link_clients_of_def Let_def split: if_splits)
  then obtain client where cl: "c = JObj client"
    using find_client_result [OF c] by auto
  have "vless_link E u email ib client = Inr (Some link)"
    using assms ib cs c tc cl
    by (auto simp: resolve_in_def link_clients_of_def Let_def split: if_splits sum.splits)
  then show ?thesis
    using ib cs c cl by blast
qed

text \<open>
  Claim C1. Whenever \<^verbatim>\<open>try_get_client_vless_link\<close> returns a link, the link was assembled
  in the pass that fetched an inbound \<open>ib\<close> and found in it the first client matching the
  email, with a credential (\<^verbatim>\<open>id\<close>, else \<^verbatim>\<open>password\<close>). Its text is the scheme
  \<^verbatim>\<open>vless://\<close>, the credential, \<^verbatim>\<open>@\<close> host \<^verbatim>\<open>:\<close> port, then the query parameters in the order
  \<^verbatim>\<open>type=tcp\<close>, \<^verbatim>\<open>security=reality\<close>, \<^verbatim>\<open>pbk\<close>, \<^verbatim>\<open>fp\<close>, \<^verbatim>\<open>sni\<close>, \<^verbatim>\<open>sid\<close>, \<^verbatim>\<open>spx=%2F\<close>, \<^verbatim>\<open>flow\<close>,
  and the fragment: the email when the trimmed remark is empty, else the trimmed remark,
  a hyphen and the email.
\<close>

theorem vless_link_assembly:
  assumes "try_get_client_vless_link E u inbound_id email wait_seconds w = (Inr (Some link), w')"
  shows "\<exists>w1 ib cs client flow remark.
           get_inbound E u inbound_id w1 = (Inr (JObj ib), w')
           \<and> py_iter (link_clients_of E ib) = Inr cs
           \<and> find_client (lower (strip email)) cs = Inr (JObj client)
           \<and> truthy (py_or (dict_get client ''id'') (dict_get client ''password''))
           \<and> flow_of client = Inr flow
           \<and> py_or (dict_get ib ''remark'') (JStr []) = JStr remark
           \<and> link =
               ''vless://'' @ py_str (py_repr E) (py_or (dict_get client ''id'') (dict_get client ''password''))
               @ ''@'' @ resolve_server_host E u
               @ '':'' @ py_str (py_repr E) (py_or (dict_get ib ''port'') (JStr []))
               @ ''?type=tcp&security=reality&pbk=''
               @ py_str (py_repr E) (public_key_of (json_loads E) (reality_settings_of E ib))
               @ ''&fp='' @ py_str (py_repr E) (fp_of (tls_settings_of E ib) (reality_settings_of E ib))
               @ ''&sni='' @ py_str (py_repr E) (sni_of (reality_settings_of E ib) (resolve_server_host E u))
               @ ''&sid='' @ py_str (py_repr E) (short_id_of (reality_settings_of E ib))
               @ ''&spx=%2F&flow='' @ flow
               @ ''#'' @ (if strip remark = [] then email else strip remark @ ''-'' @ email)"
proof -
  obtain w1 where st: "poll_step E u inbound_id email w1 = (Inr (Return (Some link)), w')"
    using poll_link_returns_link assms unfolding try_get_client_vless_link_def by blast
  obtain inbound where gi: "get_inbound E u inbound_id w1 = (Inr inbound, w')"
    and ri: "resolve_in E u email inbound = Inr (Return (Some link))"
    using st by (auto simp: poll_step_def split: prod.splits sum.splits)
  obtain ib cs client where ib: "inbound = JObj ib"
    and cs: "py_iter (link_clients_of E ib) = Inr cs"
    and fc: "find_client (lower (strip email)) cs = Inr (JObj client)"
    and vl: "vless_link E u email ib client = Inr (Some link)"
    using resolve_in_link [OF ri] by blast
  obtain flow remark where
    "truthy (py_or (dict_get client ''id'') (dict_get client ''password''))"
    "flow_of client = Inr flow"
    "py_or (dict_get ib ''remark'') (JStr []) = JStr remark"
    "link = link_text E u email ib client flow remark"
    using vless_link_text [OF vl] by blast
  then show ?thesis
    using gi ib cs fc unfolding link_text_def by blast
qed


text \<open>The end-to-end scenario of the specification on the concrete panel.\<close>

theorem vless_link_assembly_witness:
  "try_get_client_vless_link (demo_rt (demo_inbound alice) JNull) demo_api 2 ''alice'' 12 world0
     = (Inr (Some ''vless://11111111-2222@panel.example:443?type=tcp&security=reality&pbk=PK1&fp=chrome&sni=example.com&sid=ab12&spx=%2F&flow=xtls-rprx-vision#srv1-alice''), world1)
   \<and> (\<exists>w1 ib. get_inbound (demo_rt (demo_inbound alice) JNull) demo_api 2 w1 = (Inr (JObj ib), world1))"
proof -
  have h: "try_get_client_vless_link (demo_rt (demo_inbound alice) JNull) demo_api 2 ''alice'' 12 world0
     = (Inr (Some ''vless://11111111-2222@panel.example:443?type=tcp&security=reality&pbk=PK1&fp=chrome&sni=example.com&sid=ab12&spx=%2F&flow=xtls-rprx-vision#srv1-alice''), world1)"
    by code_simp
  show ?thesis
    using vless_link_assembly [OF h] h by blast
qed

section \<open>The fields of the link: properties\<close>

lemma present_or: "py_or (dict_get d k) y = (case present d k of Some v \<Rightarrow> v | None \<Rightarrow> y)"
  by (simp add: py_or_def dict_get_def present_def split: option.splits)

lemma strip_default_flow: "strip ''xtls-rprx-vision'' = ''xtls-rprx-vision''"
  by code_simp

text \<open>
  Claim C2, as the code has it. Each field of the link follows its preference chain, a
  field counting as present when its value is truthy: the public key is
  \<^verbatim>\<open>realitySettings.publicKey\<close>, else the \<^verbatim>\<open>publicKey\<close> of the nested
  \<^verbatim>\<open>realitySettings.settings\<close>, else empty; the short id is the first entry of
  \<^verbatim>\<open>shortIds\<close>, else empty; the SNI is the first entry of \<^verbatim>\<open>serverNames\<close>, else the host;
  the fingerprint is that of the TLS settings, else that of the Reality settings, else
  \<^verbatim>\<open>chrome\<close>; the flow is the client's \<^verbatim>\<open>flow\<close>, else \<^verbatim>\<open>xtls-rprx-vision\<close>, and it is
  trimmed of surrounding whitespace (line 211), a flow that is not a string raising
  \<^verbatim>\<open>AttributeError\<close>.
\<close>

theorem link_field_selection:
  "public_key_of loads rs =
     (case present rs ''publicKey'' of
        Some v \<Rightarrow> v
      | None \<Rightarrow>
          (case present (entries (safe_json_load loads (py_or (dict_get rs ''settings'') (JObj []))))
                  ''publicKey'' of
             Some v \<Rightarrow> v
           | None \<Rightarrow> JStr []))
   \<and> short_id_of rs = (case dict_get rs ''shortIds'' of JList (x # xs) \<Rightarrow> x | _ \<Rightarrow> JStr [])
   \<and> sni_of rs host = (case dict_get rs ''serverNames'' of JList (x # xs) \<Rightarrow> x | _ \<Rightarrow> JStr host)
   \<and> fp_of tls rs =
       (case present tls ''fingerprint'' of
          Some v \<Rightarrow> v
        | None \<Rightarrow> (case present rs ''fingerprint'' of Some v \<Rightarrow> v | None \<Rightarrow> JStr ''chrome''))
   \<and> flow_of client =
       (case present client ''flow'' of
          None \<Rightarrow> Inr ''xtls-rprx-vision''
        | Some (JStr s) \<Rightarrow> Inr (strip s)
        | Some _ \<Rightarrow> Inl AttributeError)"
proof (intro conjI)
  show "public_key_of loads rs =
     (case present rs ''publicKey'' of
        Some v \<Rightarrow> v
      | None \<Rightarrow>
          (case present (entries (safe_json_load loads (py_or (dict_get rs ''settings'') (JObj []))))
                  ''publicKey'' of
             Some v \<Rightarrow> v
           | None \<Rightarrow> JStr []))"
    by (simp add: public_key_of_def Let_def present_or [of rs "''publicKey''"]
          present_or [of "entries (safe_json_load loads (py_or (dict_get rs ''settings'') (JObj [])))"]
          split: option.splits)
  show "short_id_of rs = (case dict_get rs ''shortIds'' of JList (x # xs) \<Rightarrow> x | _ \<Rightarrow> JStr [])"
    by (simp add: short_id_of_def Let_def py_or_def split: json.splits list.splits)
  show "sni_of rs host = (case dict_get rs ''serverNames'' of JList (x # xs) \<Rightarrow> x | _ \<Rightarrow> JStr host)"
    by (simp add: sni_of_def Let_def py_or_def split: json.splits list.splits)
  show "fp_of tls rs =
       (case present tls ''fingerprint'' of
          Some v \<Rightarrow> v
        | None \<Rightarrow> (case present rs ''fingerprint'' of Some v \<Rightarrow> v | None \<Rightarrow> JStr ''chrome''))"
    by (simp add: fp_of_def present_or)
  show "flow_of client =
       (case present client ''flow'' of
          None \<Rightarrow> Inr ''xtls-rprx-vision''
        | Some (JStr s) \<Rightarrow> Inr (strip s)
        | Some _ \<Rightarrow> Inl AttributeError)"
    by (simp add: flow_of_def present_or strip_default_flow split: option.splits json.splits)
qed

text \<open>
  Claim C2 as stated fails on the flow: a client whose \<^verbatim>\<open>flow\<close> is stored with a
  trailing space gets a link whose \<^verbatim>\<open>flow\<close> parameter is the trimmed label, not the
  client's field.
\<close>

theorem flow_not_client_field_counterexample:
  "present spaced_client ''flow'' = Some (JStr ''xtls-rprx-vision '')
   \<and> flow_of spaced_client = Inr ''xtls-rprx-vision''
   \<and> ''xtls-rprx-vision'' \<noteq> ''xtls-rprx-vision ''
   \<and> try_get_client_vless_link (demo_rt (demo_inbound spaced_client) JNull) demo_api 2 ''alice'' 12 world0
     = (Inr (Some ''vless://11111111-2222@panel.example:443?type=tcp&security=reality&pbk=PK1&fp=chrome&sni=example.com&sid=ab12&spx=%2F&flow=xtls-rprx-vision#srv1-alice''), world1)"
  by code_simp

section \<open>Requests that only read the panel\<close>

lemma reads_onlyI:
  "sent w' = sent w @ rs \<Longrightarrow> list_all (is_read_request u i) rs \<Longrightarrow> reads_only u i w w'"
  by (simp add: reads_only_def)

lemma reads_onlyD:
  "reads_only u i w w' \<Longrightarrow> \<exists>rs. sent w' = sent w @ rs \<and> list_all (is_read_request u i) rs"
  unfolding reads_only_def
  by (metis append_take_drop_id)

lemma reads_only_refl: "reads_only u i w w"
  by (simp add: reads_only_def)

lemma reads_only_trans:
  assumes "reads_only u i w w1" "reads_only u i w1 w2"
  shows "reads_only u i w w2"
proof -
  obtain rs where a: "sent w1 = sent w @ rs" "list_all (is_read_request u i) rs"
    using reads_onlyD [OF assms(1)] by blast
  obtain rs' where b: "sent w2 = sent w1 @ rs'" "list_all (is_read_request u i) rs'"
    using reads_onlyD [OF assms(2)] by blast
  show ?thesis
    by (rule reads_onlyI [of _ _ "rs @ rs'"]) (simp_all add: a b)
qed


lemma request_reads:
  assumes "is_read_request u i \<lparr>req_method = m, req_url = build_url u p, req_json = j\<rparr>"
  shows "reads_only u i w (snd (request E u m p j w))"
  by (rule reads_onlyI [of _ _ "[\<lparr>req_method = m, req_url = build_url u p, req_json = j\<rparr>]"])
     (simp_all add: request_world assms)

lemma get_inbounds_list_world:
  "snd (get_inbounds_list E u w) = snd (request E u POST ''panel/inbound/list'' (JObj []) w)"
  by (simp add: get_inbounds_list_def post_def Let_def split: prod.splits sum.splits)

lemma get_inbounds_list_reads: "reads_only u i w (snd (get_inbounds_list E u w))"
  unfolding get_inbounds_list_world
  by (rule request_reads) (simp add: is_read_request_def)

lemma get_inbound_variants_reads:
  assumes "\<forall>(m, p, j) \<in> set vs. is_read_request u i \<lparr>req_method = m, req_url = build_url u p, req_json = j\<rparr>"
  shows "reads_only u i w (snd (get_inbound_variants E u vs w))"
  using assms
proof (induction vs arbitrary: w)
  case Nil
  show ?case by (simp add: reads_only_refl)
next
  case (Cons v vs)
  obtain m p j where v: "v = (m, p, j)" by (cases v) auto
  have a: "reads_only u i w (snd (request E u m p j w))"
    using Cons.prems by (intro request_reads) (simp add: v)
  have b: "reads_only u i (snd (request E u m p j w))
             (snd (get_inbound_variants E u vs (snd (request E u m p j w))))"
    using Cons.prems by (intro Cons.IH) simp
  show ?case
    using a reads_only_trans [OF a b]
    by (auto simp: v split: prod.splits sum.splits option.splits)
qed

lemma get_inbound_reads: "reads_only u i w (snd (get_inbound E u i w))"
proof -
  obtain r w1 where l: "get_inbounds_list E u w = (r, w1)" by (cases "get_inbounds_list E u w")
  have a: "reads_only u i w w1"
    using get_inbounds_list_reads [of u i w E] l by simp
  have "reads_only u i w1 (snd (get_inbound_variants E u
            [(GET, ''panel/inbound/get/'' @ str_of_int i, JNull),
             (GET, ''panel/inbound/get'', JObj [(''id'', JInt i)])] w1))"
    by (rule get_inbound_variants_reads) (simp add: is_read_request_def)
  then have b: "reads_only u i w (snd (get_inbound_variants E u
            [(GET, ''panel/inbound/get/'' @ str_of_int i, JNull),
             (GET, ''panel/inbound/get'', JObj [(''id'', JInt i)])] w1))"
    using a reads_only_trans by blast
  show ?thesis
    using a b
    by (simp add: get_inbound_def l split_beta split: sum.splits option.splits
          del: get_inbound_variants.simps)
qed

lemma get_clients_list_reads: "reads_only u i w (snd (get_clients_list E u i w))"
  using get_inbound_reads [of u i w E]
  by (simp add: get_clients_list_def split_beta split: sum.splits)




lemma update_not_read: "\<not> is_read_request u i (update_request u i payload)"
  by (simp add: is_read_request_def update_request_def build_url_def)

section \<open>A client without a credential\<close>

text \<open>
  Claim C9. In any pass of the loop (the clock is before the deadline), when the fetched
  inbound holds a client record matching the email, and the first such record has
  neither a truthy \<^verbatim>\<open>id\<close> nor a truthy \<^verbatim>\<open>password\<close>, the resolution returns \<^verbatim>\<open>None\<close> in
  that pass: the world it leaves is the one the fetch left, with no sleep and no further
  request. A client record is a non-empty dict.
\<close>

theorem missing_identifier_fails_at_once:
  assumes "clock_ms w < deadline"
    and "get_inbound E u inbound_id w = (Inr (JObj ib), w')"
    and "ib \<noteq> []"
    and "py_iter (link_clients_of E ib) = Inr cs"
    and "find_client (lower (strip email)) cs = Inr (JObj client)"
    and "client \<noteq> []"
    and "\<not> truthy (py_or (dict_get client ''id'') (dict_get client ''password''))"
  shows "poll_link E u inbound_id email deadline w = (Inr None, w')
         \<and> try_get_client_vless_link E u inbound_id email wait_seconds w = (Inr None, w')"
proof -
  have vl: "vless_link E u email ib client = Inr None"
    using assms(7) by (simp add: vless_link_def Let_def)
  have ri: "resolve_in E u email (JObj ib) = Inr (Return None)"
    using assms(3-6) vl
    by (simp add: resolve_in_def link_clients_of_def Let_def)
  have st: "poll_step E u inbound_id email w = (Inr (Return None), w')"
    using assms(2) ri by (simp add: poll_step_def)
  have a: "poll_link E u inbound_id email d w = (Inr None, w')" if "clock_ms w < d" for d
    using that st by (subst poll_link.simps) simp
  have "clock_ms w < clock_ms w + 1000 * nat (max 1 wait_seconds)"
    by simp
  then show ?thesis
    using a assms(1) unfolding try_get_client_vless_link_def by blast
qed

text \<open>On the concrete panel, with a client that has an email and no credential.\<close>

theorem missing_identifier_fails_at_once_witness:
  "clock_ms world0 < 12000
   \<and> get_inbound (demo_rt (demo_inbound anon_client) JNull) demo_api 2 world0
       = (Inr (JObj (entries (demo_inbound anon_client))), world1)
   \<and> entries (demo_inbound anon_client) \<noteq> []
   \<and> py_iter (link_clients_of (demo_rt (demo_inbound anon_client) JNull) (entries (demo_inbound anon_client)))
       = Inr [JObj anon_client]
   \<and> find_client (lower (strip ''alice'')) [JObj anon_client] = Inr (JObj anon_client)
   \<and> anon_client \<noteq> []
   \<and> \<not> truthy (py_or (dict_get anon_client ''id'') (dict_get anon_client ''password''))
   \<and> poll_link (demo_rt (demo_inbound anon_client) JNull) demo_api 2 ''alice'' 12000 world0
       = (Inr None, world1)
   \<and> try_get_client_vless_link (demo_rt (demo_inbound anon_client) JNull) demo_api 2 ''alice'' 12 world0
       = (Inr None, world1)"
proof -
  have h1: "clock_ms world0 < 12000" by code_simp
  have h2: "get_inbound (demo_rt (demo_inbound anon_client) JNull) demo_api 2 world0
       = (Inr (JObj (entries (demo_inbound anon_client))), world1)" by code_simp
  have h3: "entries (demo_inbound anon_client) \<noteq> []" by code_simp
  have h4: "py_iter (link_clients_of (demo_rt (demo_inbound anon_client) JNull) (entries (demo_inbound anon_client)))
       = Inr [JObj anon_client]" by code_simp
  have h5: "find_client (lower (strip ''alice'')) [JObj anon_client] = Inr (JObj anon_client)"
    by code_simp
  have h6: "anon_client \<noteq> []" by code_simp
  have h7: "\<not> truthy (py_or (dict_get anon_client ''id'') (dict_get anon_client ''password''))"
    by code_simp
  show ?thesis
    using missing_identifier_fails_at_once [OF h1 h2 h3 h4 h5 h6 h7, of 12] h1 h2 h3 h4 h5 h6 h7
    by blast
qed

section \<open>Raising the traffic ceiling: properties\<close>

lemma add_traffic_loop_first_match:
  assumes "list_all (\<lambda>p. is_dict p \<and> dict_get (entries p) ''email'' \<noteq> JStr email) pre"
    and "dict_get c ''email'' = JStr email"
  shows "add_traffic_loop ios email g (pre @ JObj c # suf) =
           (case py_int ios (py_or (dict_get c ''totalGB'') (JInt 0)) of
              Inl e \<Rightarrow> Inl e
            | Inr cur \<Rightarrow>
                (if cur = 0 then Inl (RuntimeError UnlimitedPlan)
                 else Inr (Some (pre @ JObj (dict_set c ''totalGB'' (JInt (cur + g * 2 ^ 30))) # suf))))"
  using assms(1)
proof (induction pre)
  case Nil
  show ?case
    using assms(2) by (simp split: sum.splits)
next
  case (Cons p pre)
  then obtain kvs where p: "p = JObj kvs" and ne: "dict_get kvs ''email'' \<noteq> JStr email"
    by (cases p) auto
  show ?case
    using Cons p ne by (simp split: sum.splits)
qed

lemma dict_get_dict_set: "dict_get (dict_set d k v) k = v"
  by (induction d) (auto simp: dict_get_def)

text \<open>
  Claim C7. When the fetched inbound's settings hold a client list in which the first
  client with the given email has \<^verbatim>\<open>totalGB\<close> exactly 0, \<^verbatim>\<open>add_traffic\<close> raises the
  unlimited-plan error. The world it leaves is the one \<^verbatim>\<open>get_inbound\<close> left: the only
  requests sent are reads, and no update request is among them, whatever its payload.
\<close>

theorem add_traffic_unlimited:
  assumes "get_inbound E u inbound_id w = (Inr (JObj ib), w1)"
    and "ib \<noteq> []"
    and "load_settings E ib = Inr (JObj st)"
    and "dict_get_default st ''clients'' (JList []) = JList (pre @ JObj c # suf)"
    and "list_all (\<lambda>p. is_dict p \<and> dict_get (entries p) ''email'' \<noteq> JStr email) pre"
    and "dict_get c ''email'' = JStr email"
    and "dict_get c ''totalGB'' = JInt 0"
  shows "add_traffic E u inbound_id email add_gb w = (Inl (RuntimeError UnlimitedPlan), w1)
         \<and> reads_only u inbound_id w w1
         \<and> (\<forall>payload. update_request u inbound_id payload \<notin> set (drop (length (sent w)) (sent w1)))"
proof -
  have loop: "add_traffic_loop (int_of_str E) email add_gb (pre @ JObj c # suf)
                = Inl (RuntimeError UnlimitedPlan)"
    using add_traffic_loop_first_match [OF assms(5,6)] assms(7) by (simp add: py_or_def)
  have res: "add_traffic E u inbound_id email add_gb w = (Inl (RuntimeError UnlimitedPlan), w1)"
    using assms(1-4) loop by (simp add: add_traffic_def)
  have ro: "reads_only u inbound_id w w1"
    using get_inbound_reads [of u inbound_id w E] assms(1) by simp
  have "update_request u inbound_id payload \<notin> set (drop (length (sent w)) (sent w1))" for payload
    using ro update_not_read [of u inbound_id payload]
    by (auto simp: reads_only_def list_all_iff)
  then show ?thesis
    using res ro by blast
qed

text \<open>On the concrete panel: bob is limited, alice, listed second, is unlimited.\<close>

theorem add_traffic_unlimited_witness:
  "get_inbound unlimited_rt demo_api 2 world0 = (Inr (JObj (entries unlimited_inbound)), world1)
   \<and> entries unlimited_inbound \<noteq> []
   \<and> load_settings unlimited_rt (entries unlimited_inbound)
       = Inr (JObj [(''clients'', JList [JObj bob, JObj unlimited_client])])
   \<and> dict_get_default [(''clients'', JList [JObj bob, JObj unlimited_client])] ''clients'' (JList [])
       = JList ([JObj bob] @ JObj unlimited_client # [])
   \<and> list_all (\<lambda>p. is_dict p \<and> dict_get (entries p) ''email'' \<noteq> JStr ''alice'') [JObj bob]
   \<and> dict_get unlimited_client ''email'' = JStr ''alice''
   \<and> dict_get unlimited_client ''totalGB'' = JInt 0
   \<and> add_traffic unlimited_rt demo_api 2 ''alice'' 10 world0 = (Inl (RuntimeError UnlimitedPlan), world1)
   \<and> reads_only demo_api 2 world0 world1"
proof -
  have h1: "get_inbound unlimited_rt demo_api 2 world0 = (Inr (JObj (entries unlimited_inbound)), world1)"
    by code_simp
  have h2: "entries unlimited_inbound \<noteq> []"
    by code_simp
  have h3: "load_settings unlimited_rt (entries unlimited_inbound)
       = Inr (JObj [(''clients'', JList [JObj bob, JObj unlimited_client])])"
    by code_simp
  have h4: "dict_get_default [(''clients'', JList [JObj bob, JObj unlimited_client])] ''clients'' (JList [])
       = JList ([JObj bob] @ JObj unlimited_client # [])"
    by code_simp
  have h5: "list_all (\<lambda>p. is_dict p \<and> dict_get (entries p) ''email'' \<noteq> JStr ''alice'') [JObj bob]"
    by code_simp
  have h6: "dict_get unlimited_client ''email'' = JStr ''alice''"
    by code_simp
  have h7: "dict_get unlimited_client ''totalGB'' = JInt 0"
    by code_simp
  note c = add_traffic_unlimited [OF h1 h2 h3 h4 h5 h6 h7, of 10]
  show ?thesis
    apply (intro conjI)
    apply (rule h1)
    apply (rule h2)
    apply (rule h3)
    apply (rule h4)
    apply (rule h5)
    apply (rule h6)
    apply (rule h7)
    apply (rule c [THEN conjunct1])
    apply (rule c [THEN conjunct2, THEN conjunct1])
    done
qed


section \<open>Creating a client: properties\<close>

text \<open>
  Claim C10. \<^verbatim>\<open>add_client\<close> never reads its \<^verbatim>\<open>wait_seconds\<close>: two calls that differ in
  it alone give the same result and leave the same world. The link is resolved by
  \<^verbatim>\<open>get_client_vless_link\<close>, whose polling window is the fixed 12 seconds after the
  moment it is called.
\<close>

theorem add_client_wait_seconds_unused:
  "add_client E u inbound_id email limit_ip total_gb expiry_time_ms flow wait_seconds w
     = add_client E u inbound_id email limit_ip total_gb expiry_time_ms flow wait_seconds' w
   \<and> get_client_vless_link E u inbound_id email w
     = (case poll_link E u inbound_id email (clock_ms w + 12000) w of
          (Inl e, w') \<Rightarrow> (Inl e, w')
        | (Inr None, w') \<Rightarrow> (Inl (LookupError email inbound_id), w')
        | (Inr (Some l), w') \<Rightarrow>
            (if l = [] then (Inl (LookupError email inbound_id), w') else (Inr l, w')))"
proof
  show "add_client E u inbound_id email limit_ip total_gb expiry_time_ms flow wait_seconds w
     = add_client E u inbound_id email limit_ip total_gb expiry_time_ms flow wait_seconds' w"
    by (simp add: add_client_def)
  show "get_client_vless_link E u inbound_id email w
     = (case poll_link E u inbound_id email (clock_ms w + 12000) w of
          (Inl e, w') \<Rightarrow> (Inl e, w')
        | (Inr None, w') \<Rightarrow> (Inl (LookupError email inbound_id), w')
        | (Inr (Some l), w') \<Rightarrow>
            (if l = [] then (Inl (LookupError email inbound_id), w') else (Inr l, w')))"
    by (simp add: get_client_vless_link_def try_get_client_vless_link_def
          split: prod.splits sum.splits option.splits)
qed

section \<open>The client-settings codec: properties\<close>

lemma payload_settings: "dict_get (entries (update_payload i ib txt)) ''settings'' = JStr txt"
  by (simp add: update_payload_def dict_get_def)

lemma payload_remark:
  "dict_get (entries (update_payload i ib txt)) ''remark'' = dict_get_default ib ''remark'' (JStr [])"
  by (simp add: update_payload_def dict_get_def)

lemma payload_port: "dict_get (entries (update_payload i ib txt)) ''port'' = dict_get ib ''port''"
  by (simp add: update_payload_def dict_get_def)

lemma payload_protocol:
  "dict_get (entries (update_payload i ib txt)) ''protocol'' = dict_get ib ''protocol''"
  by (simp add: update_payload_def dict_get_def)

lemma payload_stream:
  "dict_get (entries (update_payload i ib txt)) ''streamSettings'' = dict_get ib ''streamSettings''"
  by (simp add: update_payload_def dict_get_def)

lemma payload_sniffing:
  "dict_get (entries (update_payload i ib txt)) ''sniffing'' = dict_get ib ''sniffing''"
  by (simp add: update_payload_def dict_get_def)

lemma payload_enable:
  "dict_get (entries (update_payload i ib txt)) ''enable'' = dict_get_default ib ''enable'' (JBool True)"
  by (simp add: update_payload_def dict_get_def)

lemma payload_tag: "dict_get (entries (update_payload i ib txt)) ''tag'' = dict_get ib ''tag''"
  by (simp add: update_payload_def dict_get_def)

lemma dict_get_default_present: "map_of d k \<noteq> None \<Longrightarrow> dict_get_default d k v = dict_get d k"
  by (auto simp: dict_get_default_def dict_get_def)

lemma carried_keys_cases:
  assumes "k \<in> set carried_keys"
  shows "k = ''remark'' \<or> k = ''port'' \<or> k = ''protocol'' \<or> k = ''streamSettings''
         \<or> k = ''sniffing'' \<or> k = ''enable'' \<or> k = ''tag''"
  using assms unfolding carried_keys_def by simp

section \<open>The pushed ceiling\<close>

lemma dict_get_dict_set_other: "k' \<noteq> k \<Longrightarrow> dict_get (dict_set d k v) k' = dict_get d k'"
  by (induction d) (auto simp: dict_get_def)

lemma find_by_email_first_match:
  assumes "list_all (\<lambda>p. is_dict p \<and> dict_get (entries p) ''email'' \<noteq> JStr email) pre"
    and "dict_get c ''email'' = JStr email"
  shows "find_by_email email (pre @ JObj c # suf) = Inr (JObj c)"
  using assms(1)
proof (induction pre)
  case Nil
  show ?case using assms(2) by simp
next
  case (Cons p pre)
  then obtain kvs where "p = JObj kvs" "dict_get kvs ''email'' \<noteq> JStr email"
    by (cases p) auto
  then show ?case using Cons by simp
qed

lemma update_client_loop_first_match:
  assumes "list_all (\<lambda>p. is_dict p \<and> dict_get (entries p) ''email'' \<noteq> JStr email) pre"
    and "dict_get c ''email'' = JStr email"
  shows "update_client_loop email total_gb expiry (pre @ JObj c # suf)
           = Inr (Some (pre @ JObj (updated_client c total_gb expiry) # suf))"
  using assms(1)
proof (induction pre)
  case Nil
  show ?case
    using assms(2) by (simp add: updated_client_def Let_def split: option.splits)
next
  case (Cons p pre)
  then obtain kvs where "p = JObj kvs" "dict_get kvs ''email'' \<noteq> JStr email"
    by (cases p) auto
  then show ?case using Cons by simp
qed

lemma update_payload_is_dict:
  "update_payload i ib txt = JObj (entries (update_payload i ib txt))"
  by (simp add: update_payload_def)

lemma decode_update_payload:
  assumes "json_loads E txt = Some (JObj st')"
    and "dict_get st' ''clients'' = JList cs"
  shows "decode_clients E (update_payload i ib txt) = Inr (JList cs)"
proof -
  have s: "py_get (update_payload i ib txt) ''settings'' = Inr (JStr txt)"
    by (subst update_payload_is_dict) (simp only: py_get.simps payload_settings)
  show ?thesis
    unfolding decode_clients_def s
    using assms by (simp add: py_or_def)
qed

text \<open>
  Claim C8. When the first client with the given email has a ceiling of \<open>N > 0\<close> bytes,
  the request \<^verbatim>\<open>add_traffic\<close> sends next after fetching the inbound is the update, and
  the \<^verbatim>\<open>settings\<close> of its payload are the JSON text of the settings whose client list
  has, as its first client with that email, that client with \<^verbatim>\<open>totalGB\<close> equal to
  \<open>N + add_gb * 2^30\<close>; the other clients are as they were. Every run pushes this
  payload, the successful one included.
\<close>

theorem add_traffic_raises_ceiling:
  assumes "get_inbound E u inbound_id w = (Inr (JObj ib), w1)"
    and "ib \<noteq> []"
    and "load_settings E ib = Inr (JObj st)"
    and "dict_get_default st ''clients'' (JList []) = JList (pre @ JObj c # suf)"
    and "list_all (\<lambda>p. is_dict p \<and> dict_get (entries p) ''email'' \<noteq> JStr email) pre"
    and "dict_get c ''email'' = JStr email"
    and "dict_get c ''totalGB'' = JInt N"
    and "0 < N"
  shows "\<exists>r w' rest payload.
           add_traffic E u inbound_id email add_gb w = (r, w')
           \<and> sent w' = sent w1 @ update_request u inbound_id payload # rest
           \<and> dict_get (entries payload) ''settings''
               = JStr (json_dumps E (JObj (dict_set st ''clients''
                    (JList (pre @ JObj (dict_set c ''totalGB'' (JInt (N + add_gb * 2 ^ 30))) # suf)))))
           \<and> find_by_email email (pre @ JObj (dict_set c ''totalGB'' (JInt (N + add_gb * 2 ^ 30))) # suf)
               = Inr (JObj (dict_set c ''totalGB'' (JInt (N + add_gb * 2 ^ 30))))
           \<and> dict_get (dict_set c ''totalGB'' (JInt (N + add_gb * 2 ^ 30))) ''totalGB''
               = JInt (N + add_gb * 2 ^ 30)"
proof -
  let ?c' = "dict_set c ''totalGB'' (JInt (N + add_gb * 2 ^ 30))"
  let ?cs = "pre @ JObj ?c' # suf"
  let ?txt = "json_dumps E (JObj (dict_set st ''clients'' (JList ?cs)))"
  let ?payload = "update_payload inbound_id ib ?txt"
  let ?path = "''panel/inbound/update/'' @ str_of_int inbound_id"
  have loop: "add_traffic_loop (int_of_str E) email add_gb (pre @ JObj c # suf) = Inr (Some ?cs)"
    using add_traffic_loop_first_match [OF assms(5,6)] assms(7,8) by (simp add: py_or_def)
  obtain pr w2 where po: "post E u ?path ?payload w1 = (pr, w2)"
    by (cases "post E u ?path ?payload w1")
  have s2: "sent w2 = sent w1 @ [update_request u inbound_id ?payload]"
    using request_world [of E u POST ?path ?payload w1] po
    by (simp add: post_def update_request_def)
  obtain cr w3 where gc: "get_clients_list E u inbound_id w2 = (cr, w3)"
    by (cases "get_clients_list E u inbound_id w2")
  obtain rs where s3: "sent w3 = sent w2 @ rs"
    using reads_onlyD [OF get_clients_list_reads [of u inbound_id w2 E]] gc by auto
  obtain r w' where at: "add_traffic E u inbound_id email add_gb w = (r, w')"
    by (cases "add_traffic E u inbound_id email add_gb w")
  have "w' = w2 \<or> w' = w3"
    using at assms(1-4) loop po gc
    by (auto simp: add_traffic_def Let_def split: sum.splits if_splits)
  then have snt: "\<exists>rest. sent w' = sent w1 @ update_request u inbound_id ?payload # rest"
    using s2 s3 by auto
  have em: "dict_get ?c' ''email'' = JStr email"
    using assms(6) by (simp add: dict_get_dict_set_other)
  have fb: "find_by_email email ?cs = Inr (JObj ?c')"
    by (rule find_by_email_first_match [OF assms(5) em])
  have st: "dict_get (entries ?payload) ''settings'' = JStr ?txt"
    by (rule payload_settings)
  have tg: "dict_get ?c' ''totalGB'' = JInt (N + add_gb * 2 ^ 30)"
    by (rule dict_get_dict_set)
  show ?thesis
    using at snt st fb tg by blast
qed

text \<open>On the concrete panel: alice, listed second, has a ceiling of 1000 bytes and gets 10 GB.\<close>

theorem add_traffic_raises_ceiling_witness:
  "get_inbound limited_rt demo_api 2 world0 = (Inr (JObj (entries limited_inbound)), world1)
   \<and> entries limited_inbound \<noteq> []
   \<and> load_settings limited_rt (entries limited_inbound)
       = Inr (JObj [(''clients'', JList [JObj bob, JObj alice])])
   \<and> dict_get_default [(''clients'', JList [JObj bob, JObj alice])] ''clients'' (JList [])
       = JList ([JObj bob] @ JObj alice # [])
   \<and> list_all (\<lambda>p. is_dict p \<and> dict_get (entries p) ''email'' \<noteq> JStr ''alice'') [JObj bob]
   \<and> dict_get alice ''email'' = JStr ''alice''
   \<and> dict_get alice ''totalGB'' = JInt 1000
   \<and> (0::int) < 1000
   \<and> (\<exists>r w' rest payload.
         add_traffic limited_rt demo_api 2 ''alice'' 10 world0 = (r, w')
         \<and> sent w' = sent world1 @ update_request demo_api 2 payload # rest
         \<and> dict_get (entries payload) ''settings''
             = JStr (json_dumps limited_rt (JObj (dict_set [(''clients'', JList [JObj bob, JObj alice])] ''clients''
                  (JList ([JObj bob] @ JObj (dict_set alice ''totalGB'' (JInt (1000 + 10 * 2 ^ 30))) # [])))))
         \<and> find_by_email ''alice'' ([JObj bob] @ JObj (dict_set alice ''totalGB'' (JInt (1000 + 10 * 2 ^ 30))) # [])
             = Inr (JObj (dict_set alice ''totalGB'' (JInt (1000 + 10 * 2 ^ 30))))
         \<and> dict_get (dict_set alice ''totalGB'' (JInt (1000 + 10 * 2 ^ 30))) ''totalGB''
             = JInt (1000 + 10 * 2 ^ 30))"
proof -
  have h1: "get_inbound limited_rt demo_api 2 world0 = (Inr (JObj (entries limited_inbound)), world1)"
    by code_simp
  have h2: "entries limited_inbound \<noteq> []"
    by code_simp
  have h3: "load_settings limited_rt (entries limited_inbound)
       = Inr (JObj [(''clients'', JList [JObj bob, JObj alice])])"
    by code_simp
  have h4: "dict_get_default [(''clients'', JList [JObj bob, JObj alice])] ''clients'' (JList [])
       = JList ([JObj bob] @ JObj alice # [])"
    by code_simp
  have h5: "list_all (\<lambda>p. is_dict p \<and> dict_get (entries p) ''email'' \<noteq> JStr ''alice'') [JObj bob]"
    by code_simp
  have h6: "dict_get alice ''email'' = JStr ''alice''"
    by code_simp
  have h7: "dict_get alice ''totalGB'' = JInt 1000"
    by code_simp
  have h8: "(0::int) < 1000"
    by simp
  note c = add_traffic_raises_ceiling [OF h1 h2 h3 h4 h5 h6 h7 h8, of 10]
  show ?thesis
    apply (intro conjI)
    apply (rule h1)
    apply (rule h2)
    apply (rule h3)
    apply (rule h4)
    apply (rule h5)
    apply (rule h6)
    apply (rule h7)
    apply (rule h8)
    apply (rule c)
    done
qed


section \<open>What the updates push: properties\<close>

lemma payload_id: "dict_get (entries (update_payload i ib txt)) ''id'' = JInt i"
  by (simp add: update_payload_def dict_get_def)

lemma payload_carried:
  assumes "k \<in> set carried_keys" and "map_of ib k \<noteq> None"
  shows "dict_get (entries (update_payload i ib txt)) k = dict_get ib k"
  using carried_keys_cases [OF assms(1)]
proof (elim disjE)
  assume "k = ''remark''"
  then show ?thesis
    using assms(2) by (simp add: payload_remark dict_get_default_present)
next
  assume "k = ''port''"
  then show ?thesis by (simp add: payload_port)
next
  assume "k = ''protocol''"
  then show ?thesis by (simp add: payload_protocol)
next
  assume "k = ''streamSettings''"
  then show ?thesis by (simp add: payload_stream)
next
  assume "k = ''sniffing''"
  then show ?thesis by (simp add: payload_sniffing)
next
  assume "k = ''enable''"
  then show ?thesis
    using assms(2) by (simp add: payload_enable dict_get_default_present)
next
  assume "k = ''tag''"
  then show ?thesis by (simp add: payload_tag)
qed

lemma update_client_sends:
  assumes "get_inbound E u inbound_id w = (Inr (JObj ib), w1)"
    and "ib \<noteq> []"
    and "load_settings E ib = Inr (JObj st)"
    and "dict_get_default st ''clients'' (JList []) = JList (pre @ JObj c # suf)"
    and "list_all (\<lambda>p. is_dict p \<and> dict_get (entries p) ''email'' \<noteq> JStr email) pre"
    and "dict_get c ''email'' = JStr email"
  shows "\<exists>r w'.
           update_client E u inbound_id email total_gb expiry_time_ms w = (r, w')
           \<and> sent w' = sent w1 @ [update_request u inbound_id
                 (update_payload inbound_id ib (json_dumps E (JObj (dict_set st ''clients''
                    (JList (pre @ JObj (updated_client c total_gb expiry_time_ms) # suf))))))]"
proof -
  let ?cs = "pre @ JObj (updated_client c total_gb expiry_time_ms) # suf"
  let ?payload = "update_payload inbound_id ib (json_dumps E (JObj (dict_set st ''clients'' (JList ?cs))))"
  let ?path = "''panel/inbound/update/'' @ str_of_int inbound_id"
  have loop: "update_client_loop email total_gb expiry_time_ms (pre @ JObj c # suf) = Inr (Some ?cs)"
    by (rule update_client_loop_first_match [OF assms(5,6)])
  obtain pr w2 where po: "post E u ?path ?payload w1 = (pr, w2)"
    by (cases "post E u ?path ?payload w1")
  have s2: "sent w2 = sent w1 @ [update_request u inbound_id ?payload]"
    using request_world [of E u POST ?path ?payload w1] po
    by (simp add: post_def update_request_def)
  obtain r w' where uc: "update_client E u inbound_id email total_gb expiry_time_ms w = (r, w')"
    by (cases "update_client E u inbound_id email total_gb expiry_time_ms w")
  have "w' = w2"
    using uc assms(1-4) loop po
    by (auto simp: update_client_def Let_def split: sum.splits if_splits)
  then show ?thesis
    using uc s2 by blast
qed

lemma add_traffic_sends:
  assumes "get_inbound E u inbound_id w = (Inr (JObj ib), w1)"
    and "ib \<noteq> []"
    and "load_settings E ib = Inr (JObj st)"
    and "dict_get_default st ''clients'' (JList []) = JList (pre @ JObj c # suf)"
    and "list_all (\<lambda>p. is_dict p \<and> dict_get (entries p) ''email'' \<noteq> JStr email) pre"
    and "dict_get c ''email'' = JStr email"
    and "dict_get c ''totalGB'' = JInt N"
    and "N \<noteq> 0"
  shows "\<exists>r w' rest.
           add_traffic E u inbound_id email add_gb w = (r, w')
           \<and> sent w' = sent w1 @ update_request u inbound_id
                 (update_payload inbound_id ib (json_dumps E (JObj (dict_set st ''clients''
                    (JList (pre @ JObj (dict_set c ''totalGB'' (JInt (N + add_gb * 2 ^ 30))) # suf))))))
               # rest"
proof -
  let ?c' = "dict_set c ''totalGB'' (JInt (N + add_gb * 2 ^ 30))"
  let ?cs = "pre @ JObj ?c' # suf"
  let ?txt = "json_dumps E (JObj (dict_set st ''clients'' (JList ?cs)))"
  let ?payload = "update_payload inbound_id ib ?txt"
  let ?path = "''panel/inbound/update/'' @ str_of_int inbound_id"
  have loop: "add_traffic_loop (int_of_str E) email add_gb (pre @ JObj c # suf) = Inr (Some ?cs)"
    using add_traffic_loop_first_match [OF assms(5,6)] assms(7,8) by (simp add: py_or_def)
  obtain pr w2 where po: "post E u ?path ?payload w1 = (pr, w2)"
    by (cases "post E u ?path ?payload w1")
  have s2: "sent w2 = sent w1 @ [update_request u inbound_id ?payload]"
    using request_world [of E u POST ?path ?payload w1] po
    by (simp add: post_def update_request_def)
  obtain cr w3 where gc: "get_clients_list E u inbound_id w2 = (cr, w3)"
    by (cases "get_clients_list E u inbound_id w2")
  obtain rs where s3: "sent w3 = sent w2 @ rs"
    using reads_onlyD [OF get_clients_list_reads [of u inbound_id w2 E]] gc by auto
  obtain r w' where at: "add_traffic E u inbound_id email add_gb w = (r, w')"
    by (cases "add_traffic E u inbound_id email add_gb w")
  have "w' = w2 \<or> w' = w3"
    using at assms(1-4) loop po gc
    by (auto simp: add_traffic_def Let_def split: sum.splits if_splits)
  then have "\<exists>rest. sent w' = sent w1 @ update_request u inbound_id ?payload # rest"
    using s2 s3 by auto
  then show ?thesis
    using at by blast
qed

text \<open>
  Claim C4. \<^verbatim>\<open>update_client\<close> and \<^verbatim>\<open>add_traffic\<close> each send, after fetching the inbound,
  an update request whose payload round-trips: decoding its clients as
  \<^verbatim>\<open>get_clients_list\<close> does gives exactly the client list the method computed, provided
  \<^verbatim>\<open>json.loads\<close> reads the encoded settings back. In both payloads \<^verbatim>\<open>id\<close> is the inbound
  id, \<^verbatim>\<open>port\<close>, \<^verbatim>\<open>protocol\<close>, \<^verbatim>\<open>streamSettings\<close>, \<^verbatim>\<open>sniffing\<close> and \<^verbatim>\<open>tag\<close> are the
  inbound's values (\<^verbatim>\<open>None\<close> when it has none), \<^verbatim>\<open>remark\<close> and \<^verbatim>\<open>enable\<close> are the inbound's
  values with the defaults \<^verbatim>\<open>""\<close> and \<^verbatim>\<open>True\<close>; so every one of the seven fields that the
  inbound has is carried over unchanged.
\<close>

theorem client_settings_round_trip:
  assumes "get_inbound E u inbound_id w = (Inr (JObj ib), w1)"
    and "ib \<noteq> []"
    and "load_settings E ib = Inr (JObj st)"
    and "dict_get_default st ''clients'' (JList []) = JList (pre @ JObj c # suf)"
    and "list_all (\<lambda>p. is_dict p \<and> dict_get (entries p) ''email'' \<noteq> JStr email) pre"
    and "dict_get c ''email'' = JStr email"
    and "dict_get c ''totalGB'' = JInt N"
    and "N \<noteq> 0"
    and "cs_set = pre @ JObj (updated_client c total_gb expiry_time_ms) # suf"
    and "cs_add = pre @ JObj (dict_set c ''totalGB'' (JInt (N + add_gb * 2 ^ 30))) # suf"
    and "json_loads E (json_dumps E (JObj (dict_set st ''clients'' (JList cs_set))))
           = Some (JObj (dict_set st ''clients'' (JList cs_set)))"
    and "json_loads E (json_dumps E (JObj (dict_set st ''clients'' (JList cs_add))))
           = Some (JObj (dict_set st ''clients'' (JList cs_add)))"
  shows "\<exists>r w' p_set r2 w2' rest p_add.
           update_client E u inbound_id email total_gb expiry_time_ms w = (r, w')
           \<and> sent w' = sent w1 @ [update_request u inbound_id p_set]
           \<and> decode_clients E p_set = Inr (JList cs_set)
           \<and> add_traffic E u inbound_id email add_gb w = (r2, w2')
           \<and> sent w2' = sent w1 @ update_request u inbound_id p_add # rest
           \<and> decode_clients E p_add = Inr (JList cs_add)
           \<and> (\<forall>p \<in> set [p_set, p_add].
                 dict_get (entries p) ''id'' = JInt inbound_id
                 \<and> dict_get (entries p) ''remark'' = dict_get_default ib ''remark'' (JStr [])
                 \<and> dict_get (entries p) ''port'' = dict_get ib ''port''
                 \<and> dict_get (entries p) ''protocol'' = dict_get ib ''protocol''
                 \<and> dict_get (entries p) ''streamSettings'' = dict_get ib ''streamSettings''
                 \<and> dict_get (entries p) ''sniffing'' = dict_get ib ''sniffing''
                 \<and> dict_get (entries p) ''enable'' = dict_get_default ib ''enable'' (JBool True)
                 \<and> dict_get (entries p) ''tag'' = dict_get ib ''tag''
                 \<and> (\<forall>k \<in> set carried_keys.
                       map_of ib k \<noteq> None \<longrightarrow> dict_get (entries p) k = dict_get ib k))"
proof -
  let ?p_set = "update_payload inbound_id ib (json_dumps E (JObj (dict_set st ''clients'' (JList cs_set))))"
  let ?p_add = "update_payload inbound_id ib (json_dumps E (JObj (dict_set st ''clients'' (JList cs_add))))"
  obtain r w' where uc: "update_client E u inbound_id email total_gb expiry_time_ms w = (r, w')"
    and su: "sent w' = sent w1 @ [update_request u inbound_id ?p_set]"
    using update_client_sends [OF assms(1-6), of total_gb expiry_time_ms] assms(9) by auto
  obtain r2 w2' rest where at: "add_traffic E u inbound_id email add_gb w = (r2, w2')"
    and sa: "sent w2' = sent w1 @ update_request u inbound_id ?p_add # rest"
    using add_traffic_sends [OF assms(1-8), of add_gb] assms(10) by auto
  have du: "decode_clients E ?p_set = Inr (JList cs_set)"
    by (rule decode_update_payload [OF assms(11)]) (rule dict_get_dict_set)
  have da: "decode_clients E ?p_add = Inr (JList cs_add)"
    by (rule decode_update_payload [OF assms(12)]) (rule dict_get_dict_set)
  have fields: "dict_get (entries (update_payload inbound_id ib tx)) ''id'' = JInt inbound_id
                 \<and> dict_get (entries (update_payload inbound_id ib tx)) ''remark'' = dict_get_default ib ''remark'' (JStr [])
                 \<and> dict_get (entries (update_payload inbound_id ib tx)) ''port'' = dict_get ib ''port''
                 \<and> dict_get (entries (update_payload inbound_id ib tx)) ''protocol'' = dict_get ib ''protocol''
                 \<and> dict_get (entries (update_payload inbound_id ib tx)) ''streamSettings'' = dict_get ib ''streamSettings''
                 \<and> dict_get (entries (update_payload inbound_id ib tx)) ''sniffing'' = dict_get ib ''sniffing''
                 \<and> dict_get (entries (update_payload inbound_id ib tx)) ''enable'' = dict_get_default ib ''enable'' (JBool True)
                 \<and> dict_get (entries (update_payload inbound_id ib tx)) ''tag'' = dict_get ib ''tag''
                 \<and> (\<forall>k \<in> set carried_keys.
                       map_of ib k \<noteq> None \<longrightarrow> dict_get (entries (update_payload inbound_id ib tx)) k = dict_get ib k)"
    for tx
    apply (intro conjI ballI impI)
    apply (rule payload_id)
    apply (rule payload_remark)
    apply (rule payload_port)
    apply (rule payload_protocol)
    apply (rule payload_stream)
    apply (rule payload_sniffing)
    apply (rule payload_enable)
    apply (rule payload_tag)
    apply (rule payload_carried; assumption)
    done
  have "\<forall>p \<in> set [?p_set, ?p_add].
                 dict_get (entries p) ''id'' = JInt inbound_id
                 \<and> dict_get (entries p) ''remark'' = dict_get_default ib ''remark'' (JStr [])
                 \<and> dict_get (entries p) ''port'' = dict_get ib ''port''
                 \<and> dict_get (entries p) ''protocol'' = dict_get ib ''protocol''
                 \<and> dict_get (entries p) ''streamSettings'' = dict_get ib ''streamSettings''
                 \<and> dict_get (entries p) ''sniffing'' = dict_get ib ''sniffing''
                 \<and> dict_get (entries p) ''enable'' = dict_get_default ib ''enable'' (JBool True)
                 \<and> dict_get (entries p) ''tag'' = dict_get ib ''tag''
                 \<and> (\<forall>k \<in> set carried_keys.
                       map_of ib k \<noteq> None \<longrightarrow> dict_get (entries p) k = dict_get ib k)"
    using fields by (simp del: update_payload_def)
  then show ?thesis
    using uc su du at sa da by blast
qed

text \<open>
  On the concrete panel: alice, listed second, is set to 5 GB by \<^verbatim>\<open>update_client\<close> and
  given 10 GB by \<^verbatim>\<open>add_traffic\<close>.
\<close>

theorem client_settings_round_trip_witness:
  "get_inbound limited_rt demo_api 2 world0 = (Inr (JObj (entries limited_inbound)), world1)
   \<and> entries limited_inbound \<noteq> []
   \<and> load_settings limited_rt (entries limited_inbound) = Inr (JObj [(''clients'', JList [JObj bob, JObj alice])])
   \<and> dict_get_default [(''clients'', JList [JObj bob, JObj alice])] ''clients'' (JList []) = JList ([JObj bob] @ JObj alice # [])
   \<and> list_all (\<lambda>p. is_dict p \<and> dict_get (entries p) ''email'' \<noteq> JStr ''alice'') [JObj bob]
   \<and> dict_get alice ''email'' = JStr ''alice''
   \<and> dict_get alice ''totalGB'' = JInt 1000
   \<and> (1000::int) \<noteq> 0
   \<and> json_loads limited_rt (json_dumps limited_rt (JObj (dict_set [(''clients'', JList [JObj bob, JObj alice])] ''clients'' (JList ([JObj bob] @ JObj (updated_client alice 5 None) # [])))))
       = Some (JObj (dict_set [(''clients'', JList [JObj bob, JObj alice])] ''clients'' (JList ([JObj bob] @ JObj (updated_client alice 5 None) # []))))
   \<and> json_loads limited_rt (json_dumps limited_rt (JObj (dict_set [(''clients'', JList [JObj bob, JObj alice])] ''clients'' (JList ([JObj bob] @ JObj (dict_set alice ''totalGB'' (JInt (1000 + 10 * 2 ^ 30))) # [])))))
       = Some (JObj (dict_set [(''clients'', JList [JObj bob, JObj alice])] ''clients'' (JList ([JObj bob] @ JObj (dict_set alice ''totalGB'' (JInt (1000 + 10 * 2 ^ 30))) # []))))
   \<and> (\<exists>r w' p_set r2 w2' rest p_add.
           update_client limited_rt demo_api 2 ''alice'' 5 None world0 = (r, w')
           \<and> sent w' = sent world1 @ [update_request demo_api 2 p_set]
           \<and> decode_clients limited_rt p_set = Inr (JList ([JObj bob] @ JObj (updated_client alice 5 None) # []))
           \<and> add_traffic limited_rt demo_api 2 ''alice'' 10 world0 = (r2, w2')
           \<and> sent w2' = sent world1 @ update_request demo_api 2 p_add # rest
           \<and> decode_clients limited_rt p_add = Inr (JList ([JObj bob] @ JObj (dict_set alice ''totalGB'' (JInt (1000 + 10 * 2 ^ 30))) # []))
           \<and> (\<forall>p \<in> set [p_set, p_add].
                 dict_get (entries p) ''id'' = JInt 2
                 \<and> dict_get (entries p) ''remark'' = dict_get_default (entries limited_inbound) ''remark'' (JStr [])
                 \<and> dict_get (entries p) ''port'' = dict_get (entries limited_inbound) ''port''
                 \<and> dict_get (entries p) ''protocol'' = dict_get (entries limited_inbound) ''protocol''
                 \<and> dict_get (entries p) ''streamSettings'' = dict_get (entries limited_inbound) ''streamSettings''
                 \<and> dict_get (entries p) ''sniffing'' = dict_get (entries limited_inbound) ''sniffing''
                 \<and> dict_get (entries p) ''enable'' = dict_get_default (entries limited_inbound) ''enable'' (JBool True)
                 \<and> dict_get (entries p) ''tag'' = dict_get (entries limited_inbound) ''tag''
                 \<and> (\<forall>k \<in> set carried_keys.
                       map_of (entries limited_inbound) k \<noteq> None \<longrightarrow> dict_get (entries p) k = dict_get (entries limited_inbound) k)))"
proof -
  have h1: "get_inbound limited_rt demo_api 2 world0 = (Inr (JObj (entries limited_inbound)), world1)"
    by code_simp
  have h2: "entries limited_inbound \<noteq> []"
    by code_simp
  have h3: "load_settings limited_rt (entries limited_inbound) = Inr (JObj [(''clients'', JList [JObj bob, JObj alice])])"
    by code_simp
  have h4: "dict_get_default [(''clients'', JList [JObj bob, JObj alice])] ''clients'' (JList []) = JList ([JObj bob] @ JObj alice # [])"
    by code_simp
  have h5: "list_all (\<lambda>p. is_dict p \<and> dict_get (entries p) ''email'' \<noteq> JStr ''alice'') [JObj bob]"
    by code_simp
  have h6: "dict_get alice ''email'' = JStr ''alice''"
    by code_simp
  have h7: "dict_get alice ''totalGB'' = JInt 1000"
    by code_simp
  have h8: "(1000::int) \<noteq> 0"
    by simp
  have h11: "json_loads limited_rt (json_dumps limited_rt (JObj (dict_set [(''clients'', JList [JObj bob, JObj alice])] ''clients'' (JList ([JObj bob] @ JObj (updated_client alice 5 None) # [])))))
       = Some (JObj (dict_set [(''clients'', JList [JObj bob, JObj alice])] ''clients'' (JList ([JObj bob] @ JObj (updated_client alice 5 None) # []))))"
    by code_simp
  have h12: "json_loads limited_rt (json_dumps limited_rt (JObj (dict_set [(''clients'', JList [JObj bob, JObj alice])] ''clients'' (JList ([JObj bob] @ JObj (dict_set alice ''totalGB'' (JInt (1000 + 10 * 2 ^ 30))) # [])))))
       = Some (JObj (dict_set [(''clients'', JList [JObj bob, JObj alice])] ''clients'' (JList ([JObj bob] @ JObj (dict_set alice ''totalGB'' (JInt (1000 + 10 * 2 ^ 30))) # []))))"
    by code_simp
  note c = client_settings_round_trip [OF h1 h2 h3 h4 h5 h6 h7 h8 refl refl h11 h12]
  show ?thesis
    apply (intro conjI)
    apply (rule h1)
    apply (rule h2)
    apply (rule h3)
    apply (rule h4)
    apply (rule h5)
    apply (rule h6)
    apply (rule h7)
    apply (rule h8)
    apply (rule h11)
    apply (rule h12)
    apply (rule c)
    done
qed

section \<open>Listing the inbounds: properties\<close>

text \<open>The envelope \<^verbatim>\<open>{"success": true, "obj": [...]}\<close> gives its list (lines 117-119).\<close>

lemma get_inbounds_list_envelope:
  assumes "post E u ''panel/inbound/list'' (JObj []) w = (Inr (JObj kvs), w')"
    and "dict_get kvs ''success'' = JBool True"
    and "dict_get kvs ''obj'' = JList xs"
  shows "get_inbounds_list E u w = (Inr (JList xs), w')"
  using assms by (cases xs) (simp_all add: get_inbounds_list_def py_or_def)

text \<open>
  Claim C5 against the code. The fallback of line 121 calls \<^verbatim>\<open>res.get("obj")\<close> without the
  tests its neighbours make (\<^verbatim>\<open>isinstance(res, dict)\<close> in line 117, \<^verbatim>\<open>isinstance(obj, list)\<close>
  in line 119). When the list endpoint answers with the bare list of inbounds, the call
  raises \<^verbatim>\<open>AttributeError\<close> where the claim has the list returned; when it answers
  \<^verbatim>\<open>{"success": false, "obj": "abc"}\<close>, the call returns the string \<^verbatim>\<open>"abc"\<close> where the
  claim has \<^verbatim>\<open>[]\<close>.
\<close>

theorem get_inbounds_list_shape_mismatch:
  "post (bare_list_rt (demo_inbound alice)) demo_api ''panel/inbound/list'' (JObj []) world0
     = (Inr (JList [demo_inbound alice]), world1)
   \<and> get_inbounds_list (bare_list_rt (demo_inbound alice)) demo_api world0
     = (Inl AttributeError, world1)
   \<and> post odd_obj_rt demo_api ''panel/inbound/list'' (JObj []) world0
     = (Inr (JObj [(''success'', JBool False), (''obj'', JStr ''abc'')]), world1)
   \<and> get_inbounds_list odd_obj_rt demo_api world0 = (Inr (JStr ''abc''), world1)"
  by code_simp

section \<open>An email that already exists\<close>







end
